theory Spec2Isabelle
  imports Main "HOL-Library.Word"
begin

section \<open>JavaScript values\<close>

text \<open>
  A JavaScript string is a sequence of UTF-16 code units. ASCII literals of the source are
  written \<open>str ''...''\<close>.
\<close>

type_synonym jsstring = "16 word list"

definition str :: "string \<Rightarrow> jsstring" where
  "str s = map (\<lambda>c. of_nat (of_char c)) s"

text \<open>
  The values a parsed JSON body or a request field can hold. An object is the list of its
  own properties (distinct keys); a number is kept as an integer, since the program only
  tests numbers for being zero.
\<close>

datatype jsval =
    JUndefined
  | JNull
  | JBool bool
  | JNum int
  | JStr jsstring
  | JArr "jsval list"
  | JObj "(jsstring \<times> jsval) list"

datatype js_error =
    TypeError jsstring
  | URIError jsstring
  | SyntaxError jsstring
  | FetchError jsstring
  | Error jsstring

fun message :: "js_error \<Rightarrow> jsstring" where
  "message (TypeError m) = m"
| "message (URIError m) = m"
| "message (SyntaxError m) = m"
| "message (FetchError m) = m"
| "message (Error m) = m"

text \<open>Truthiness, as \<open>!x\<close>, \<open>if (x)\<close> and \<open>x || y\<close> test it.\<close>

fun truthy :: "jsval \<Rightarrow> bool" where
  "truthy JUndefined = False"
| "truthy JNull = False"
| "truthy (JBool b) = b"
| "truthy (JNum n) = (n \<noteq> 0)"
| "truthy (JStr s) = (s \<noteq> [])"
| "truthy (JArr xs) = True"
| "truthy (JObj fs) = True"

definition js_or :: "jsval \<Rightarrow> jsval \<Rightarrow> jsval" where
  "js_or a b = (if truthy a then a else b)"

fun nullish :: "jsval \<Rightarrow> bool" where
  "nullish JUndefined = True"
| "nullish JNull = True"
| "nullish v = False"

text \<open>
  Property read \<open>v.k\<close> on a value that is neither null nor undefined. The names this
  program reads (response, message, result, answer, choices, candidates, content, parts,
  text, url, image, data) are no inherited property of any prototype, so a primitive or an
  array gives undefined.
\<close>

fun read_prop :: "jsval \<Rightarrow> jsstring \<Rightarrow> jsval" where
  "read_prop (JObj fs) k = (case map_of fs k of Some v \<Rightarrow> v | None \<Rightarrow> JUndefined)"
| "read_prop v k = JUndefined"

text \<open>The TypeError of a property read on null or undefined (message text as in V8).\<close>

definition cannot_read :: "jsval \<Rightarrow> jsstring \<Rightarrow> js_error" where
  "cannot_read v k =
     TypeError (str ''Cannot read properties of ''
                @ (if v = JNull then str ''null'' else str ''undefined'')
                @ str '' (reading '' @ [0x27] @ k @ [0x27] @ str '')'')"

definition get :: "jsval \<Rightarrow> jsstring \<Rightarrow> js_error + jsval" where
  "get v k = (if nullish v then Inl (cannot_read v k) else Inr (read_prop v k))"

text \<open>Element read \<open>v[0]\<close> on a value that is neither null nor undefined.\<close>

fun index0 :: "jsval \<Rightarrow> jsval" where
  "index0 (JArr xs) = (case xs of [] \<Rightarrow> JUndefined | x # _ \<Rightarrow> x)"
| "index0 (JStr s) = (case s of [] \<Rightarrow> JUndefined | c # _ \<Rightarrow> JStr [c])"
| "index0 (JObj fs) = read_prop (JObj fs) (str ''0'')"
| "index0 v = JUndefined"

text \<open>Optional chaining: \<open>v?.k\<close> and \<open>v?.[0]\<close>.\<close>

definition opt_prop :: "jsval \<Rightarrow> jsstring \<Rightarrow> jsval" where
  "opt_prop v k = (if nullish v then JUndefined else read_prop v k)"

definition opt_index0 :: "jsval \<Rightarrow> jsval" where
  "opt_index0 v = (if nullish v then JUndefined else index0 v)"

text \<open>A field that may be missing (undefined) holds a string when present.\<close>

fun opt_val :: "jsstring option \<Rightarrow> jsval" where
  "opt_val None = JUndefined"
| "opt_val (Some s) = JStr s"

text \<open>
  \<open>String.prototype.toLowerCase\<close> on the ASCII letters; other code units are kept (the
  Unicode case mappings beyond ASCII are not modelled; none of them yields a name the
  program dispatches on).
\<close>

definition lower_unit :: "16 word \<Rightarrow> 16 word" where
  "lower_unit c = (if 0x41 \<le> c \<and> c \<le> 0x5A then c + 0x20 else c)"

definition toLowerCase :: "jsstring \<Rightarrow> jsstring" where
  "toLowerCase s = map lower_unit s"

subsection \<open>encodeURIComponent\<close>

text \<open>
  ECMAScript's \<open>Encode\<close> with the unreserved set of \<open>encodeURIComponent\<close>: an unreserved
  code unit is copied, any other code point is written as the percent-escaped octets of
  its UTF-8 form, and an unpaired surrogate throws a URIError.
\<close>

definition unreserved :: "16 word \<Rightarrow> bool" where
  "unreserved c =
     ((0x41 \<le> c \<and> c \<le> 0x5A) \<or> (0x61 \<le> c \<and> c \<le> 0x7A) \<or> (0x30 \<le> c \<and> c \<le> 0x39)
      \<or> c \<in> set (str ''-_.!~*()'') \<or> c = 0x27)"

definition is_high_surrogate :: "16 word \<Rightarrow> bool" where
  "is_high_surrogate c = (0xD800 \<le> c \<and> c \<le> 0xDBFF)"

definition is_low_surrogate :: "16 word \<Rightarrow> bool" where
  "is_low_surrogate c = (0xDC00 \<le> c \<and> c \<le> 0xDFFF)"

definition code_point :: "16 word \<Rightarrow> 16 word \<Rightarrow> nat" where
  "code_point hi lo = (unat hi - 0xD800) * 0x400 + (unat lo - 0xDC00) + 0x10000"

definition utf8 :: "nat \<Rightarrow> nat list" where
  "utf8 cp =
     (if cp < 0x80 then [cp]
      else if cp < 0x800 then [0xC0 + cp div 0x40, 0x80 + cp mod 0x40]
      else if cp < 0x10000 then
        [0xE0 + cp div 0x1000, 0x80 + (cp div 0x40) mod 0x40, 0x80 + cp mod 0x40]
      else
        [0xF0 + cp div 0x40000, 0x80 + (cp div 0x1000) mod 0x40,
         0x80 + (cp div 0x40) mod 0x40, 0x80 + cp mod 0x40])"

definition hex_digit :: "nat \<Rightarrow> 16 word" where
  "hex_digit n = (if n < 10 then of_nat (0x30 + n) else of_nat (0x41 + (n - 10)))"

definition percent :: "nat \<Rightarrow> jsstring" where
  "percent octet = [0x25, hex_digit (octet div 16), hex_digit (octet mod 16)]"

definition URI_malformed :: js_error where
  "URI_malformed = URIError (str ''URI malformed'')"

fun encodeURIComponent :: "jsstring \<Rightarrow> js_error + jsstring" where
  "encodeURIComponent [] = Inr []"
| "encodeURIComponent (c # cs) =
     (if unreserved c then
        (case encodeURIComponent cs of Inl e \<Rightarrow> Inl e | Inr r \<Rightarrow> Inr (c # r))
      else if is_low_surrogate c then Inl URI_malformed
      else if is_high_surrogate c then
        (case cs of
           [] \<Rightarrow> Inl URI_malformed
         | d # ds \<Rightarrow>
             if is_low_surrogate d then
               (case encodeURIComponent ds of
                  Inl e \<Rightarrow> Inl e
                | Inr r \<Rightarrow> Inr (concat (map percent (utf8 (code_point c d))) @ r))
             else Inl URI_malformed)
      else
        (case encodeURIComponent cs of
           Inl e \<Rightarrow> Inl e
         | Inr r \<Rightarrow> Inr (concat (map percent (utf8 (unat c))) @ r)))"

section \<open>The upstream services and the HTTP response\<close>

text \<open>
  What one \<open>fetch\<close> of a URL with a JSON payload ends in: the promise rejects (network
  error, timeout, bad URL) with a message, or a response arrives with a status and a body
  that \<open>response.json()\<close> either fails to parse (with a message) or parses to a value.
  Within one request no URL is fetched twice, so a function of URL and payload describes
  any behaviour of the network during that request. A handler returns, next to its HTTP
  response, the list of the fetches it made, in order. Console logging is left out.
\<close>

datatype outcome = Rejected jsstring | Responded nat "jsstring + jsval"

type_synonym world = "jsstring \<Rightarrow> jsval \<Rightarrow> outcome"

type_synonym call = "jsstring \<times> jsval"

definition ok :: "nat \<Rightarrow> bool" where
  "ok st = (200 \<le> st \<and> st \<le> 299)"

record response =
  res_status :: nat
  res_headers :: "(string \<times> string) list"
  res_body :: "jsval option"

definition fresh_res :: response where
  "fresh_res = \<lparr>res_status = 200, res_headers = [], res_body = None\<rparr>"

definition setHeader :: "response \<Rightarrow> string \<Rightarrow> string \<Rightarrow> response" where
  "setHeader res k v = res\<lparr>res_headers := res_headers res @ [(k, v)]\<rparr>"

text \<open>\<open>res.status(st).json(b)\<close> and \<open>res.status(st).end()\<close>.\<close>

definition status_json :: "response \<Rightarrow> nat \<Rightarrow> jsval \<Rightarrow> response" where
  "status_json res st b = res\<lparr>res_status := st, res_body := Some b\<rparr>"

definition status_end :: "response \<Rightarrow> nat \<Rightarrow> response" where
  "status_end res st = res\<lparr>res_status := st\<rparr>"

text \<open>
  The request, after the platform has parsed it. The fields of its parameter object have
  the types of the data model: prompt, model, action and imageUrl are strings when
  present, history is an array of turns. The query is always an object; the body of a
  request that carries none is undefined (or null), and destructuring it throws a
  TypeError, whose message is the engine's.
\<close>

record turn =
  role :: jsval
  content :: jsval

record params =
  p_prompt :: "jsstring option"
  p_model :: "jsstring option"
  p_action :: "jsstring option"
  p_history :: "turn list option"
  p_imageUrl :: "jsstring option"

datatype reqbody = NoBody jsstring | Body params

record request =
  rq_method :: jsstring
  rq_query :: params
  rq_body :: reqbody

text \<open>
  \<open>const {prompt, ...} = req.method === 'GET' ? req.query : req.body\<close>: the parameter
  object, or the TypeError of destructuring a missing body.
\<close>

definition destructure_params :: "request \<Rightarrow> js_error + params" where
  "destructure_params req =
     (if rq_method req = str ''GET'' then Inr (rq_query req)
      else case rq_body req of NoBody m \<Rightarrow> Inl (TypeError m) | Body ps \<Rightarrow> Inr ps)"

definition turn_obj :: "turn \<Rightarrow> jsval" where
  "turn_obj h = JObj [(str ''role'', role h), (str ''content'', content h)]"

text \<open>\<open>history.slice(-5)\<close>\<close>

definition slice_last5 :: "'a list \<Rightarrow> 'a list" where
  "slice_last5 xs = drop (length xs - 5) xs"

text \<open>
  What a \<open>try\<close> block that may \<open>return\<close> ends in: it returned a value, or control went on
  behind the \<open>try\<close> statement (the block ran to its end, or threw and the \<open>catch\<close> only
  logged).
\<close>

datatype attempt = Returned jsval | Continued

section \<open>api/index.js: the router with the table of working services\<close>

definition WORKING_APIS_chatgpt :: "jsstring list" where
  "WORKING_APIS_chatgpt =
     [str ''https://api.kastg.xyz/api/ai/chatgptv2'',
      str ''https://deepenglish.com/wp-json/ai-chatbot/v1/chat'']"

definition WORKING_APIS_claude :: "jsstring list" where
  "WORKING_APIS_claude = [str ''https://api.kastg.xyz/api/ai/claude'']"

definition WORKING_APIS_perplexity :: "jsstring list" where
  "WORKING_APIS_perplexity = [str ''https://api.kastg.xyz/api/ai/perplexity'']"

definition WORKING_APIS_gemini :: "jsstring list" where
  "WORKING_APIS_gemini =
     [str ''https://generativelanguage.googleapis.com/v1beta/models/gemini-pro:generateContent'']"

definition WORKING_APIS_image :: "jsstring list" where
  "WORKING_APIS_image =
     [str ''https://image.pollinations.ai/prompt/'',
      str ''https://api.kastg.xyz/api/ai/stablediffusion'']"

text \<open>The expressions that pick the answer out of a parsed body \<open>data\<close>.\<close>

text \<open>\<open>data.response || data.message || data.result\<close>\<close>

definition response_message_result :: "jsval \<Rightarrow> js_error + jsval" where
  "response_message_result data =
     (if nullish data then Inl (cannot_read data (str ''response''))
      else Inr (js_or (js_or (read_prop data (str ''response'')) (read_prop data (str ''message'')))
                  (read_prop data (str ''result''))))"

text \<open>\<open>data.response || data.message\<close>\<close>

definition response_message :: "jsval \<Rightarrow> js_error + jsval" where
  "response_message data =
     (if nullish data then Inl (cannot_read data (str ''response''))
      else Inr (js_or (read_prop data (str ''response'')) (read_prop data (str ''message''))))"

text \<open>\<open>data.candidates?.[0]?.content?.parts?.[0]?.text\<close>\<close>

definition candidates_text :: "jsval \<Rightarrow> js_error + jsval" where
  "candidates_text data =
     (case get data (str ''candidates'') of
        Inl e \<Rightarrow> Inl e
      | Inr c \<Rightarrow>
          Inr (opt_prop (opt_index0 (opt_prop (opt_prop (opt_index0 c) (str ''content''))
                                       (str ''parts'')))
                 (str ''text'')))"

text \<open>
  The body of each \<open>try\<close> block of the chat functions of this file:
  \<open>const response = await fetch(url, {body}); if (response.ok) { const data = await
  response.json(); return pick(data); }\<close>, with a \<open>catch\<close> that logs.
\<close>

definition try_post :: "world \<Rightarrow> jsstring \<Rightarrow> jsval \<Rightarrow> (jsval \<Rightarrow> js_error + jsval) \<Rightarrow> attempt" where
  "try_post W url payload pick =
     (case W url payload of
        Rejected m \<Rightarrow> Continued
      | Responded st b \<Rightarrow>
          if ok st then
            (case b of
               Inl m \<Rightarrow> Continued
             | Inr data \<Rightarrow> (case pick data of Inl e \<Rightarrow> Continued | Inr v \<Rightarrow> Returned v))
          else Continued)"

definition kastg_payload :: "jsstring option \<Rightarrow> turn list \<Rightarrow> jsval" where
  "kastg_payload prompt history =
     JObj [(str ''prompt'', opt_val prompt),
           (str ''history'', JArr (map turn_obj (slice_last5 history)))]"

definition deepenglish_payload :: "jsstring option \<Rightarrow> turn list \<Rightarrow> jsval" where
  "deepenglish_payload prompt history =
     JObj [(str ''messages'',
            JArr (map turn_obj history
                  @ [JObj [(str ''role'', JStr (str ''user'')), (str ''content'', opt_val prompt)]]))]"

definition tryChatGPT :: "world \<Rightarrow> jsstring option \<Rightarrow> turn list \<Rightarrow> jsval \<times> call list" where
  "tryChatGPT W prompt history =
     (let c1 = (WORKING_APIS_chatgpt ! 0, kastg_payload prompt history);
          c2 = (WORKING_APIS_chatgpt ! 1, deepenglish_payload prompt history)
      in case try_post W (fst c1) (snd c1) response_message_result of
           Returned v \<Rightarrow> (v, [c1])
         | Continued \<Rightarrow>
             (case try_post W (fst c2) (snd c2) response_message of
                Returned v \<Rightarrow> (v, [c1, c2])
              | Continued \<Rightarrow> (JNull, [c1, c2])))"

definition tryClaude :: "world \<Rightarrow> jsstring option \<Rightarrow> turn list \<Rightarrow> jsval \<times> call list" where
  "tryClaude W prompt history =
     (let c1 = (WORKING_APIS_claude ! 0, kastg_payload prompt history)
      in case try_post W (fst c1) (snd c1) response_message_result of
           Returned v \<Rightarrow> (v, [c1])
         | Continued \<Rightarrow> (JNull, [c1]))"

definition perplexity_payload :: "jsstring option \<Rightarrow> jsval" where
  "perplexity_payload prompt = JObj [(str ''prompt'', opt_val prompt)]"

definition tryPerplexity :: "world \<Rightarrow> jsstring option \<Rightarrow> jsval \<times> call list" where
  "tryPerplexity W prompt =
     (let c1 = (WORKING_APIS_perplexity ! 0, perplexity_payload prompt)
      in case try_post W (fst c1) (snd c1) response_message_result of
           Returned v \<Rightarrow> (v, [c1])
         | Continued \<Rightarrow> (JNull, [c1]))"

text \<open>
  \<open>env\<close> is \<open>process.env.GEMINI_API_KEY\<close>: absent, or a string.
\<close>

definition YOUR_GEMINI_KEY :: jsstring where
  "YOUR_GEMINI_KEY = str ''YOUR_GEMINI_KEY''"

definition GEMINI_KEY :: "jsstring option \<Rightarrow> jsstring" where
  "GEMINI_KEY env = (case env of None \<Rightarrow> YOUR_GEMINI_KEY
                     | Some k \<Rightarrow> if k \<noteq> [] then k else YOUR_GEMINI_KEY)"

definition gemini_payload :: "jsstring option \<Rightarrow> jsval" where
  "gemini_payload prompt =
     JObj [(str ''contents'',
            JArr [JObj [(str ''parts'', JArr [JObj [(str ''text'', opt_val prompt)]])]])]"

definition gemini_url :: "jsstring \<Rightarrow> jsstring" where
  "gemini_url key = (WORKING_APIS_gemini ! 0) @ str ''?key='' @ key"

definition tryGemini ::
  "world \<Rightarrow> jsstring option \<Rightarrow> jsstring option \<Rightarrow> turn list \<Rightarrow> jsstring option \<Rightarrow> jsval \<times> call list" where
  "tryGemini W env prompt history imageUrl =
     (if GEMINI_KEY env = [] \<or> GEMINI_KEY env = YOUR_GEMINI_KEY then tryChatGPT W prompt history
      else
        (let c = (gemini_url (GEMINI_KEY env), gemini_payload prompt)
         in case try_post W (fst c) (snd c) candidates_text of
              Returned v \<Rightarrow> (v, [c])
            | Continued \<Rightarrow>
                (case tryChatGPT W prompt history of (v, calls) \<Rightarrow> (v, c # calls))))"

text \<open>
  \<open>handleChatRequest\<close>. The only exception inside its \<open>try\<close> is its own
  \<open>throw new Error('All APIs failed')\<close>, so \<open>error.message\<close> in the \<open>catch\<close> is that text.
  \<open>now\<close> is the reading of \<open>new Date().toISOString()\<close>.
\<close>

definition handleChatRequest ::
  "world \<Rightarrow> jsstring option \<Rightarrow> jsstring \<Rightarrow> jsstring option \<Rightarrow> jsstring \<Rightarrow> turn list
     \<Rightarrow> jsstring option \<Rightarrow> response \<Rightarrow> response \<times> call list" where
  "handleChatRequest W env now prompt model history imageUrl res =
     (let modelLower = toLowerCase model
      in case (if modelLower = str ''chatgpt'' \<or> modelLower = str ''gpt'' \<or> modelLower = str ''gpt4''
               then tryChatGPT W prompt history
               else if modelLower = str ''claude'' then tryClaude W prompt history
               else if modelLower = str ''perplexity'' \<or> modelLower = str ''search''
               then tryPerplexity W prompt
               else if modelLower = str ''gemini'' then tryGemini W env prompt history imageUrl
               else tryChatGPT W prompt history) of
           (response, calls) \<Rightarrow>
             if truthy response then
               (status_json res 200
                  (JObj [(str ''success'', JBool True),
                         (str ''model'', JStr modelLower),
                         (str ''response'', response),
                         (str ''timestamp'', JStr now)]), calls)
             else
               (status_json res 500
                  (JObj [(str ''error'', JStr (str ''Chat generation failed'')),
                         (str ''message'', JStr (message (Error (str ''All APIs failed'')))),
                         (str ''model'', JStr modelLower)]), calls))"

text \<open>
  \<open>handleImageGeneration\<close>. The \<open>try\<close> block throws only where \<open>encodeURIComponent\<close>
  does; the \<open>catch\<close> then posts to the second image service.
\<close>

definition handleImageGeneration ::
  "world \<Rightarrow> jsstring \<Rightarrow> jsstring option \<Rightarrow> response \<Rightarrow> response \<times> call list" where
  "handleImageGeneration W now prompt res =
     (let required = (status_json res 400
                        (JObj [(str ''error'', JStr (str ''Prompt required for image generation''))]), [])
      in case prompt of
           None \<Rightarrow> required
         | Some p \<Rightarrow>
             if \<not> truthy (JStr p) then required
             else
               (case encodeURIComponent p of
                  Inr encodedPrompt \<Rightarrow>
                    (let imageUrl = (WORKING_APIS_image ! 0) @ encodedPrompt
                                      @ str ''?width=1024&height=1024&nologo=true&enhance=true''
                     in (status_json res 200
                           (JObj [(str ''success'', JBool True),
                                  (str ''model'', JStr (str ''pollinations'')),
                                  (str ''imageUrl'', JStr imageUrl),
                                  (str ''directUrl'', JStr imageUrl),
                                  (str ''prompt'', JStr p),
                                  (str ''timestamp'', JStr now)]), []))
                | Inl error \<Rightarrow>
                    (let c = (WORKING_APIS_image ! 1, JObj [(str ''prompt'', JStr p)]);
                         failed = status_json res 500
                                    (JObj [(str ''error'', JStr (str ''Image generation failed'')),
                                           (str ''message'', JStr (message error))])
                     in case W (fst c) (snd c) of
                          Rejected m \<Rightarrow> (failed, [c])
                        | Responded st b \<Rightarrow>
                            if ok st then
                              (case b of
                                 Inl m \<Rightarrow> (failed, [c])
                               | Inr data \<Rightarrow>
                                   if nullish data then (failed, [c])
                                   else
                                     (status_json res 200
                                        (JObj [(str ''success'', JBool True),
                                               (str ''model'', JStr (str ''stable-diffusion'')),
                                               (str ''imageUrl'',
                                                js_or (read_prop data (str ''url''))
                                                  (read_prop data (str ''image''))),
                                               (str ''prompt'', JStr p),
                                               (str ''timestamp'', JStr now)]), [c]))
                            else (failed, [c]))))"

text \<open>
  \<open>module.exports\<close> of api/index.js. With the request fields typed as above, the
  destructuring of a missing body is the only place where its \<open>try\<close> block throws; its
  \<open>catch\<close> then answers HTTP 500 "Internal server error".
\<close>

definition cors_index :: "response \<Rightarrow> response" where
  "cors_index res =
     setHeader (setHeader (setHeader res ''Access-Control-Allow-Origin'' ''*'')
                  ''Access-Control-Allow-Methods'' ''GET, POST, OPTIONS'')
       ''Access-Control-Allow-Headers'' ''Content-Type, Authorization''"

definition usage_index :: jsval where
  "usage_index =
     JObj [(str ''chat'', JStr (str ''POST / with {prompt, model: chatgpt|claude|perplexity|gemini}'')),
           (str ''image'', JStr (str ''POST / with {action: image, prompt: your description}''))]"

definition status_payload :: "jsstring \<Rightarrow> jsval" where
  "status_payload now =
     JObj [(str ''status'', JStr (str ''online'')),
           (str ''models'', JArr [JStr (str ''chatgpt''), JStr (str ''claude''),
                                  JStr (str ''perplexity''), JStr (str ''gemini'')]),
           (str ''features'', JArr [JStr (str ''chat''), JStr (str ''image'')]),
           (str ''timestamp'', JStr now)]"

definition exports_index ::
  "world \<Rightarrow> jsstring option \<Rightarrow> jsstring \<Rightarrow> request \<Rightarrow> response \<times> call list" where
  "exports_index W env now req =
     (let res = cors_index fresh_res
      in if rq_method req = str ''OPTIONS'' then (status_end res 200, [])
         else
           (case destructure_params req of
              Inl error \<Rightarrow>
                (status_json res 500
                   (JObj [(str ''error'', JStr (str ''Internal server error'')),
                          (str ''message'', JStr (message error))]), [])
            | Inr params \<Rightarrow>
                (let prompt = p_prompt params;
                     model = (case p_model params of None \<Rightarrow> str ''chatgpt'' | Some m \<Rightarrow> m);
                     action = (case p_action params of None \<Rightarrow> str ''chat'' | Some a \<Rightarrow> a);
                     history = (case p_history params of None \<Rightarrow> [] | Some h \<Rightarrow> h);
                     imageUrl = p_imageUrl params
                 in if \<not> truthy (opt_val prompt) \<and> action \<noteq> str ''test'' then
                      (status_json res 400
                         (JObj [(str ''error'', JStr (str ''Missing prompt'')),
                                (str ''usage'', usage_index)]), [])
                    else if action = str ''test'' then
                      (status_json res 200 (status_payload now), [])
                    else if action = str ''image'' then handleImageGeneration W now prompt res
                    else handleChatRequest W env now prompt model history imageUrl res)))"

section \<open>The older router, with one primary service per model and a fallback list\<close>

text \<open>The own properties of the object literal \<open>APIS\<close>.\<close>

definition APIS :: "(jsstring \<times> jsstring) list" where
  "APIS =
     [(str ''gpt4'', str ''https://api.guruapi.tech/ai/gpt4''),
      (str ''claude'', str ''https://api.guruapi.tech/ai/claude''),
      (str ''gemini'', str ''https://api.guruapi.tech/ai/gemini''),
      (str ''llama'', str ''https://api.guruapi.tech/ai/llama''),
      (str ''imageGen'', str ''https://api.guruapi.tech/ai/image'')]"

definition APIS_gpt4 :: jsstring where
  "APIS_gpt4 = str ''https://api.guruapi.tech/ai/gpt4''"

definition FALLBACK_chat :: "jsstring list" where
  "FALLBACK_chat =
     [str ''https://widipe.com/openai'',
      str ''https://api.freeaiapi.xyz/v1/chat/completions'']"

text \<open>
  The names every object literal inherits from \<open>Object.prototype\<close>. \<open>APIS[model]\<close> at such
  a name is a function or an object: truthy, and no URL, so that \<open>fetch\<close> rejects before
  any network traffic.
\<close>

definition Object_prototype_names :: "jsstring list" where
  "Object_prototype_names =
     [str ''constructor'', str ''__proto__'', str ''hasOwnProperty'', str ''isPrototypeOf'',
      str ''propertyIsEnumerable'', str ''toLocaleString'', str ''toString'', str ''valueOf'',
      str ''__defineGetter__'', str ''__defineSetter__'', str ''__lookupGetter__'',
      str ''__lookupSetter__'']"

text \<open>\<open>APIS[model] || APIS.gpt4\<close>: a URL, or \<open>None\<close> for an inherited value.\<close>

definition apiUrl :: "jsstring \<Rightarrow> jsstring option" where
  "apiUrl model =
     (case map_of APIS model of
        Some url \<Rightarrow> Some url
      | None \<Rightarrow> if model \<in> set Object_prototype_names then None else Some APIS_gpt4)"

text \<open>\<open>data.response || data.answer || data.result || null\<close>\<close>

definition response_answer_result :: "jsval \<Rightarrow> js_error + jsval" where
  "response_answer_result data =
     (if nullish data then Inl (cannot_read data (str ''response''))
      else Inr (js_or (js_or (js_or (read_prop data (str ''response''))
                                (read_prop data (str ''answer'')))
                         (read_prop data (str ''result'')))
                  JNull))"

text \<open>\<open>data.choices?.[0]?.message?.content\<close>\<close>

definition choices_content :: "jsval \<Rightarrow> js_error + jsval" where
  "choices_content data =
     (case get data (str ''choices'') of
        Inl e \<Rightarrow> Inl e
      | Inr c \<Rightarrow> Inr (opt_prop (opt_prop (opt_index0 c) (str ''message'')) (str ''content'')))"

definition guru_payload :: "jsstring option \<Rightarrow> turn list \<Rightarrow> jsval" where
  "guru_payload prompt history =
     JObj [(str ''query'', opt_val prompt), (str ''history'', JArr (map turn_obj history))]"

definition callChatAPI ::
  "world \<Rightarrow> jsstring option \<Rightarrow> jsstring \<Rightarrow> turn list \<Rightarrow> jsval \<times> call list" where
  "callChatAPI W prompt model history =
     (case apiUrl model of
        None \<Rightarrow> (JNull, [])
      | Some url \<Rightarrow>
          (let c = (url, guru_payload prompt history)
           in case W (fst c) (snd c) of
                Rejected m \<Rightarrow> (JNull, [c])
              | Responded st b \<Rightarrow>
                  if \<not> ok st then (JNull, [c])
                  else
                    (case b of
                       Inl m \<Rightarrow> (JNull, [c])
                     | Inr data \<Rightarrow>
                         (case response_answer_result data of
                            Inl e \<Rightarrow> (JNull, [c])
                          | Inr v \<Rightarrow> (v, [c])))))"

definition fallback_payload :: "jsstring option \<Rightarrow> turn list \<Rightarrow> jsval" where
  "fallback_payload prompt history =
     JObj [(str ''model'', JStr (str ''gpt-4'')),
           (str ''messages'',
            JArr (map turn_obj history
                  @ [JObj [(str ''role'', JStr (str ''user'')), (str ''content'', opt_val prompt)]])),
           (str ''stream'', JBool False)]"

definition callFallbackChat ::
  "world \<Rightarrow> jsstring option \<Rightarrow> jsstring \<Rightarrow> turn list \<Rightarrow> jsval \<times> call list" where
  "callFallbackChat W prompt url history =
     (let c = (url, fallback_payload prompt history)
      in case W (fst c) (snd c) of
           Rejected m \<Rightarrow> (JNull, [c])
         | Responded st b \<Rightarrow>
             if \<not> ok st then (JNull, [c])
             else
               (case b of
                  Inl m \<Rightarrow> (JNull, [c])
                | Inr data \<Rightarrow>
                    (case choices_content data of
                       Inl e \<Rightarrow> (JNull, [c])
                     | Inr v \<Rightarrow> (js_or v JNull, [c]))))"

text \<open>
  The loop \<open>for (const fallbackUrl of FALLBACK.chat)\<close> of \<open>handleChat\<close>: \<open>Some\<close> the
  response it returned with, or \<open>None\<close> when it ran to its end.
\<close>

fun fallback_loop ::
  "world \<Rightarrow> jsstring option \<Rightarrow> turn list \<Rightarrow> jsstring list \<Rightarrow> jsval option \<times> call list" where
  "fallback_loop W prompt history [] = (None, [])"
| "fallback_loop W prompt history (fallbackUrl # urls) =
     (case callFallbackChat W prompt fallbackUrl history of
        (response, calls) \<Rightarrow>
          if truthy response then (Some response, calls)
          else (case fallback_loop W prompt history urls of
                  (r, calls') \<Rightarrow> (r, calls @ calls')))"

definition handleChat ::
  "world \<Rightarrow> jsstring \<Rightarrow> jsstring option \<Rightarrow> jsstring \<Rightarrow> turn list \<Rightarrow> response
     \<Rightarrow> response \<times> call list" where
  "handleChat W now prompt model history res =
     (let selectedModel = toLowerCase model
      in case callChatAPI W prompt selectedModel history of
           (response, calls) \<Rightarrow>
             if truthy response then
               (status_json res 200
                  (JObj [(str ''success'', JBool True),
                         (str ''model'', JStr selectedModel),
                         (str ''response'', response),
                         (str ''timestamp'', JStr now)]), calls)
             else
               (case fallback_loop W prompt history FALLBACK_chat of
                  (Some response', calls') \<Rightarrow>
                    (status_json res 200
                       (JObj [(str ''success'', JBool True),
                              (str ''model'', JStr (str ''fallback'')),
                              (str ''response'', response'),
                              (str ''timestamp'', JStr now)]), calls @ calls')
                | (None, calls') \<Rightarrow>
                    (status_json res 500
                       (JObj [(str ''error'', JStr (str ''Chat generation failed'')),
                              (str ''message'', JStr (message (Error (str ''All APIs failed''))))]),
                     calls @ calls')))"

definition handleImageGen ::
  "world \<Rightarrow> jsstring \<Rightarrow> jsstring option \<Rightarrow> response \<Rightarrow> response \<times> call list" where
  "handleImageGen W now prompt res =
     (let required = (status_json res 400
                        (JObj [(str ''error'', JStr (str ''Prompt required for image generation''))]), [])
      in case prompt of
           None \<Rightarrow> required
         | Some p \<Rightarrow>
             if \<not> truthy (JStr p) then required
             else
               (case encodeURIComponent p of
                  Inr encodedPrompt \<Rightarrow>
                    (let imageUrl = str ''https://image.pollinations.ai/prompt/'' @ encodedPrompt
                                      @ str ''?width=1024&height=1024&nologo=true''
                     in (status_json res 200
                           (JObj [(str ''success'', JBool True),
                                  (str ''model'', JStr (str ''pollinations-ai'')),
                                  (str ''imageUrl'', JStr imageUrl),
                                  (str ''prompt'', JStr p),
                                  (str ''timestamp'', JStr now)]), []))
                | Inl error \<Rightarrow>
                    (let c = (str ''https://api.freeaiapi.xyz/v1/images/generations'',
                              JObj [(str ''prompt'', JStr p), (str ''n'', JNum 1),
                                    (str ''size'', JStr (str ''1024x1024''))]);
                         failed = (\<lambda>fallbackError.
                                     status_json res 500
                                       (JObj [(str ''error'', JStr (str ''Image generation failed'')),
                                              (str ''message'', JStr (message fallbackError))]))
                     in case W (fst c) (snd c) of
                          Rejected m \<Rightarrow> (failed (FetchError m), [c])
                        | Responded st b \<Rightarrow>
                            (case b of
                               Inl m \<Rightarrow> (failed (SyntaxError m), [c])
                             | Inr data \<Rightarrow>
                                 (case get data (str ''data'') of
                                    Inl e \<Rightarrow> (failed e, [c])
                                  | Inr d \<Rightarrow>
                                      (status_json res 200
                                         (JObj [(str ''success'', JBool True),
                                                (str ''model'', JStr (str ''dalle-free'')),
                                                (str ''imageUrl'',
                                                 js_or (opt_prop (opt_index0 d) (str ''url'')) JNull),
                                                (str ''prompt'', JStr p),
                                                (str ''timestamp'', JStr now)]), [c]))))))"

definition cors_older :: "response \<Rightarrow> response" where
  "cors_older res =
     setHeader (setHeader (setHeader res ''Access-Control-Allow-Origin'' ''*'')
                  ''Access-Control-Allow-Methods'' ''GET, POST, OPTIONS'')
       ''Access-Control-Allow-Headers'' ''Content-Type''"

definition usage_older :: jsval where
  "usage_older = JStr (str ''GET /?prompt=your_question&model=gpt4|claude|gemini|llama'')"

text \<open>
  \<open>module.exports\<close> of the older router, with the same \<open>catch\<close> for the destructuring of
  a missing body.
\<close>

definition exports_older :: "world \<Rightarrow> jsstring \<Rightarrow> request \<Rightarrow> response \<times> call list" where
  "exports_older W now req =
     (let res = cors_older fresh_res
      in if rq_method req = str ''OPTIONS'' then (status_end res 200, [])
         else
           (case destructure_params req of
              Inl error \<Rightarrow>
                (status_json res 500
                   (JObj [(str ''error'', JStr (str ''Internal server error'')),
                          (str ''message'', JStr (message error))]), [])
            | Inr params \<Rightarrow>
                (let prompt = p_prompt params;
                     model = (case p_model params of None \<Rightarrow> str ''gpt4'' | Some m \<Rightarrow> m);
                     action = (case p_action params of None \<Rightarrow> str ''chat'' | Some a \<Rightarrow> a);
                     history = (case p_history params of None \<Rightarrow> [] | Some h \<Rightarrow> h)
                 in if \<not> truthy (opt_val prompt) \<and> action = str ''chat'' then
                      (status_json res 400
                         (JObj [(str ''error'', JStr (str ''Prompt required'')),
                                (str ''usage'', usage_older)]), [])
                    else if action = str ''image'' then handleImageGen W now prompt res
                    else handleChat W now prompt model history res)))"

section \<open>api/claude.js: the standalone handler\<close>

definition cocos_url :: jsstring where
  "cocos_url = str ''https://api.cocos.si/chat/completions''"

definition cocos_payload :: "jsstring \<Rightarrow> jsval" where
  "cocos_payload prompt =
     JObj [(str ''model'', JStr (str ''claude-3-5-sonnet'')),
           (str ''messages'',
            JArr [JObj [(str ''role'', JStr (str ''user'')), (str ''content'', JStr prompt)]])]"

text \<open>\<open>req.query.prompt || "Hello"\<close>\<close>

definition prompt_or_Hello :: "jsstring option \<Rightarrow> jsstring" where
  "prompt_or_Hello q = (case q of None \<Rightarrow> str ''Hello''
                        | Some s \<Rightarrow> if truthy (JStr s) then s else str ''Hello'')"

definition handler :: "world \<Rightarrow> request \<Rightarrow> response \<times> call list" where
  "handler W req =
     (let prompt = prompt_or_Hello (p_prompt (rq_query req));
          c = (cocos_url, cocos_payload prompt);
          failed = (\<lambda>err. status_json fresh_res 500
                             (JObj [(str ''success'', JBool False),
                                    (str ''error'', JStr (message err))]))
      in case W (fst c) (snd c) of
           Rejected m \<Rightarrow> (failed (FetchError m), [c])
         | Responded st b \<Rightarrow>
             (case b of
                Inl m \<Rightarrow> (failed (SyntaxError m), [c])
              | Inr data \<Rightarrow>
                  (case choices_content data of
                     Inl e \<Rightarrow> (failed e, [c])
                   | Inr v \<Rightarrow>
                       (status_json fresh_res 200
                          (JObj [(str ''success'', JBool True),
                                 (str ''model'', JStr (str ''claude-3.5-sonnet'')),
                                 (str ''response'', js_or v (JStr (str ''No response.'')))]),
                        [c]))))"

section \<open>Vocabulary of the properties\<close>

text \<open>
  A candidate upstream of a chat strategy: the fetch it makes (URL and payload) and the
  expression that picks the answer out of the parsed body.
\<close>

type_synonym target = "call \<times> (jsval \<Rightarrow> js_error + jsval)"

text \<open>
  An attempt ends without a parsed body when the fetch rejects (network error), the status
  is not 2xx, or the body does not parse as JSON. These are some of the failed attempts;
  all of them, with the 2xx bodies in which no usable field is found, are the attempts
  without usable value below.
\<close>

definition without_parsed_body :: "world \<Rightarrow> call \<Rightarrow> bool" where
  "without_parsed_body W c =
     (case W (fst c) (snd c) of
        Rejected m \<Rightarrow> True
      | Responded st b \<Rightarrow> \<not> ok st \<or> (case b of Inl m \<Rightarrow> True | Inr data \<Rightarrow> False))"

text \<open>
  The usable value of an upstream: it answers 2xx with a body that parses and in which the
  pick expression finds a truthy value. \<open>None\<close>: the upstream fails or returns unusable
  data.
\<close>

definition usable_value :: "world \<Rightarrow> target \<Rightarrow> jsval option" where
  "usable_value W t =
     (case W (fst (fst t)) (snd (fst t)) of
        Rejected m \<Rightarrow> None
      | Responded st b \<Rightarrow>
          if ok st then
            (case b of
               Inl m \<Rightarrow> None
             | Inr data \<Rightarrow>
                 (case snd t data of
                    Inl e \<Rightarrow> None
                  | Inr v \<Rightarrow> if truthy v then Some v else None))
          else None)"

text \<open>The candidates of each chat strategy of api/index.js, in the order of the code.\<close>

definition chatgpt_targets :: "jsstring option \<Rightarrow> turn list \<Rightarrow> target list" where
  "chatgpt_targets prompt history =
     [((WORKING_APIS_chatgpt ! 0, kastg_payload prompt history), response_message_result),
      ((WORKING_APIS_chatgpt ! 1, deepenglish_payload prompt history), response_message)]"

definition gemini_targets :: "jsstring option \<Rightarrow> jsstring option \<Rightarrow> turn list \<Rightarrow> target list" where
  "gemini_targets env prompt history =
     (if GEMINI_KEY env = [] \<or> GEMINI_KEY env = YOUR_GEMINI_KEY then chatgpt_targets prompt history
      else ((gemini_url (GEMINI_KEY env), gemini_payload prompt), candidates_text)
           # chatgpt_targets prompt history)"

definition index_targets ::
  "jsstring option \<Rightarrow> jsstring \<Rightarrow> jsstring option \<Rightarrow> turn list \<Rightarrow> target list" where
  "index_targets env modelLower prompt history =
     (if modelLower = str ''claude'' then
        [((WORKING_APIS_claude ! 0, kastg_payload prompt history), response_message_result)]
      else if modelLower = str ''perplexity'' \<or> modelLower = str ''search'' then
        [((WORKING_APIS_perplexity ! 0, perplexity_payload prompt), response_message_result)]
      else if modelLower = str ''gemini'' then gemini_targets env prompt history
      else chatgpt_targets prompt history)"

text \<open>The candidates of the older router: the primary service of the model, then the fallbacks.\<close>

definition older_targets :: "jsstring \<Rightarrow> jsstring option \<Rightarrow> turn list \<Rightarrow> target list" where
  "older_targets selectedModel prompt history =
     (case apiUrl selectedModel of
        None \<Rightarrow> []
      | Some url \<Rightarrow> [((url, guru_payload prompt history), response_answer_result)])
     @ map (\<lambda>url. ((url, fallback_payload prompt history), choices_content)) FALLBACK_chat"

text \<open>
  Sequential fallback over a list of candidates, in the two forms the code has. In
  api/index.js a \<open>try\<close> block returns whatever its pick expression gives once the upstream
  answered 2xx with a parsed body; the older router goes on until a value is truthy.
\<close>

fun run_returning :: "world \<Rightarrow> target list \<Rightarrow> jsval \<times> call list" where
  "run_returning W [] = (JNull, [])"
| "run_returning W (t # ts) =
     (case try_post W (fst (fst t)) (snd (fst t)) (snd t) of
        Returned v \<Rightarrow> (v, [fst t])
      | Continued \<Rightarrow> (case run_returning W ts of (v, calls) \<Rightarrow> (v, fst t # calls)))"

fun run_until_truthy :: "world \<Rightarrow> target list \<Rightarrow> jsval option \<times> call list" where
  "run_until_truthy W [] = (None, [])"
| "run_until_truthy W (t # ts) =
     (case usable_value W t of
        Some v \<Rightarrow> (Some v, [fst t])
      | None \<Rightarrow> (case run_until_truthy W ts of (r, calls) \<Rightarrow> (r, fst t # calls)))"

text \<open>
  The fields of the parameter object of a request; all of them are absent when the request
  has no parameter object.
\<close>

definition no_params :: params where
  "no_params = \<lparr>p_prompt = None, p_model = None, p_action = None, p_history = None,
                 p_imageUrl = None\<rparr>"

definition request_params :: "request \<Rightarrow> params" where
  "request_params req = (case destructure_params req of Inl e \<Rightarrow> no_params | Inr ps \<Rightarrow> ps)"

text \<open>A chat request: one that the router hands to its chat handler.\<close>

definition param_action :: "request \<Rightarrow> jsstring" where
  "param_action req = (case p_action (request_params req) of None \<Rightarrow> str ''chat'' | Some a \<Rightarrow> a)"

definition param_history :: "request \<Rightarrow> turn list" where
  "param_history req = (case p_history (request_params req) of None \<Rightarrow> [] | Some h \<Rightarrow> h)"

definition param_prompt :: "request \<Rightarrow> jsstring option" where
  "param_prompt req = p_prompt (request_params req)"

definition model_index :: "request \<Rightarrow> jsstring" where
  "model_index req =
     toLowerCase (case p_model (request_params req) of None \<Rightarrow> str ''chatgpt'' | Some m \<Rightarrow> m)"

definition model_older :: "request \<Rightarrow> jsstring" where
  "model_older req =
     toLowerCase (case p_model (request_params req) of None \<Rightarrow> str ''gpt4'' | Some m \<Rightarrow> m)"

definition chat_request_index :: "request \<Rightarrow> bool" where
  "chat_request_index req =
     (rq_method req \<noteq> str ''OPTIONS'' \<and> truthy (opt_val (param_prompt req))
      \<and> param_action req \<noteq> str ''test'' \<and> param_action req \<noteq> str ''image'')"

definition chat_request_older :: "request \<Rightarrow> bool" where
  "chat_request_older req =
     (rq_method req \<noteq> str ''OPTIONS'' \<and> truthy (opt_val (param_prompt req))
      \<and> param_action req \<noteq> str ''image'')"

text \<open>A field of the JSON body of a response (undefined when there is none).\<close>

definition body_field :: "response \<Rightarrow> string \<Rightarrow> jsval" where
  "body_field r k = (case res_body r of None \<Rightarrow> JUndefined | Some b \<Rightarrow> read_prop b (str k))"

text \<open>
  The normalizer in the words of the specification: the first value among the ordered
  candidate fields that is neither null nor undefined, and null when there is none.
\<close>

fun spec_normalizer :: "jsstring list \<Rightarrow> jsval \<Rightarrow> jsval" where
  "spec_normalizer [] data = JNull"
| "spec_normalizer (k # ks) data =
     (if \<not> nullish (read_prop data k) then read_prop data k else spec_normalizer ks data)"

text \<open>The first truthy value among the ordered candidate fields.\<close>

fun first_truthy :: "jsstring list \<Rightarrow> jsval \<Rightarrow> jsval option" where
  "first_truthy [] data = None"
| "first_truthy (k # ks) data =
     (if truthy (read_prop data k) then Some (read_prop data k) else first_truthy ks data)"

text \<open>A string without unpaired surrogates.\<close>

fun well_formed :: "jsstring \<Rightarrow> bool" where
  "well_formed [] = True"
| "well_formed [c] = (\<not> is_high_surrogate c \<and> \<not> is_low_surrogate c)"
| "well_formed (c # d # ds) =
     (if is_high_surrogate c then is_low_surrogate d \<and> well_formed ds
      else \<not> is_low_surrogate c \<and> well_formed (d # ds))"

text \<open>A URL of the gemini service: it starts with the registered gemini endpoint.\<close>

definition gemini_upstream :: "jsstring \<Rightarrow> bool" where
  "gemini_upstream url =
     (take (length (WORKING_APIS_gemini ! 0)) url = WORKING_APIS_gemini ! 0)"

text \<open>Requests used as concrete instances.\<close>

definition GET_request :: "params \<Rightarrow> request" where
  "GET_request ps = \<lparr>rq_method = str ''GET'', rq_query = ps, rq_body = Body no_params\<rparr>"

definition POST_request :: "params \<Rightarrow> request" where
  "POST_request ps = \<lparr>rq_method = str ''POST'', rq_query = no_params, rq_body = Body ps\<rparr>"

section \<open>Properties\<close>

subsection \<open>String literals\<close>

lemma unit_inj: "((of_nat (of_char c)) :: 16 word) = of_nat (of_char d) \<longleftrightarrow> c = d"
proof
  assume h: "((of_nat (of_char c)) :: 16 word) = of_nat (of_char d)"
  have c: "(of_char c :: nat) < 256" and d: "(of_char d :: nat) < 256"
    by (rule nat_of_char_less_256)+
  from h have "unat ((of_nat (of_char c)) :: 16 word) = unat ((of_nat (of_char d)) :: 16 word)"
    by simp
  moreover have "(of_char c :: nat) < 65536" "(of_char d :: nat) < 65536"
    using less_trans [OF c, of 65536] less_trans [OF d, of 65536] by simp_all
  ultimately have "(of_char c :: nat) = of_char d"
    by (simp add: unat_of_nat)
  then show "c = d" by simp
qed simp

lemma str_eq_iff: "str a = str b \<longleftrightarrow> a = b"
  unfolding str_def by (simp add: inj_map_eq_map inj_on_def unit_inj)

lemma str_append: "str a @ str b = str (a @ b)"
  by (simp add: str_def)

lemma str_empty: "str a = [] \<longleftrightarrow> a = []"
  by (simp add: str_def)

lemma toLowerCase_names:
  "toLowerCase (str ''chatgpt'') = str ''chatgpt''"
  "toLowerCase (str ''gpt4'') = str ''gpt4''"
  "toLowerCase (str ''claude'') = str ''claude''"
  "toLowerCase (str ''gemini'') = str ''gemini''"
  "toLowerCase (str ''Gemini'') = str ''gemini''"
  by (simp_all add: toLowerCase_def lower_unit_def str_def)

subsection \<open>The response normalizer\<close>

text \<open>
  C6, as stated, fails: with \<open>response\<close> present and empty and \<open>message\<close> holding "hi",
  the expression \<open>data.response || data.message || data.result\<close> gives "hi", where the
  first value that is neither null nor undefined is the empty string.
\<close>

theorem normalizer_skips_falsy:
  "response_message_result
     (JObj [(str ''response'', JStr (str '''')), (str ''message'', JStr (str ''hi''))])
   = Inr (JStr (str ''hi''))
   \<and> spec_normalizer [str ''response'', str ''message'', str ''result'']
       (JObj [(str ''response'', JStr (str '''')), (str ''message'', JStr (str ''hi''))])
     = JStr (str '''')"
  by (simp add: response_message_result_def js_or_def str_eq_iff str_empty)

text \<open>
  C6, amended: for every parsed body other than null, each normalizer returns the first
  truthy value among its ordered candidate fields (a field holding false, 0, the empty
  string or null is passed over like a missing one). When no candidate is truthy, the
  expressions of api/index.js give the value of their last candidate field and the one of
  the older router gives null. When \<open>response\<close> is truthy it is the value returned,
  whatever \<open>message\<close> holds.
\<close>

theorem normalizer_first_truthy:
  "\<not> nullish data \<longrightarrow>
     response_message_result data =
       Inr (case first_truthy [str ''response'', str ''message'', str ''result''] data of
              Some v \<Rightarrow> v | None \<Rightarrow> read_prop data (str ''result''))
     \<and> response_message data =
         Inr (case first_truthy [str ''response'', str ''message''] data of
                Some v \<Rightarrow> v | None \<Rightarrow> read_prop data (str ''message''))
     \<and> response_answer_result data =
         Inr (case first_truthy [str ''response'', str ''answer'', str ''result''] data of
                Some v \<Rightarrow> v | None \<Rightarrow> JNull)
     \<and> (truthy (read_prop data (str ''response'')) \<longrightarrow>
          response_message_result data = Inr (read_prop data (str ''response'')))"
  by (simp add: response_message_result_def response_message_def response_answer_result_def
        js_or_def)

text \<open>C6, an instance: \<open>{response: 0, message: "hi"}\<close> is normalized to "hi".\<close>

theorem normalizer_first_truthy_witness:
  "response_message_result
     (JObj [(str ''response'', JNum 0), (str ''message'', JStr (str ''hi''))])
   = Inr (JStr (str ''hi''))"
  using normalizer_first_truthy
          [of "JObj [(str ''response'', JNum 0), (str ''message'', JStr (str ''hi''))]"]
  by (simp add: str_eq_iff str_empty)

subsection \<open>api/claude.js\<close>

text \<open>
  C9, as stated, fails: when the upstream answers with the JSON body \<open>null\<close>, neither
  \<open>fetch\<close> nor \<open>response.json()\<close> throws, the read \<open>data.choices\<close> throws a TypeError, and
  the handler responds HTTP 500.
\<close>

theorem handler_null_body:
  "(\<lambda>url payload. Responded 200 (Inr JNull)) cocos_url (cocos_payload (str ''hi''))
     = Responded 200 (Inr JNull)
   \<and> res_status (fst (handler (\<lambda>url payload. Responded 200 (Inr JNull))
                        (GET_request (no_params\<lparr>p_prompt := Some (str ''hi'')\<rparr>)))) = 500"
  by (simp add: handler_def GET_request_def no_params_def prompt_or_Hello_def str_empty
        choices_content_def get_def status_json_def fresh_res_def)

text \<open>
  C9, amended: the handler of api/claude.js makes exactly one fetch; a missing prompt is
  replaced by "Hello"; whenever the fetch and the JSON parse do not throw and the parsed
  body is not null, whatever the status of the upstream, it responds HTTP 200 with success
  true and \<open>choices[0].message.content\<close>, or "No response." when that is not truthy; it
  responds HTTP 500 exactly when the fetch throws, the JSON parse throws, or the parsed body
  is null.
\<close>

theorem handler_claude_js:
  "snd (handler W req) = [(cocos_url, cocos_payload (prompt_or_Hello (p_prompt (rq_query req))))]
   \<and> (p_prompt (rq_query req) = None \<longrightarrow>
        prompt_or_Hello (p_prompt (rq_query req)) = str ''Hello'')
   \<and> (\<forall>st data.
         W cocos_url (cocos_payload (prompt_or_Hello (p_prompt (rq_query req))))
           = Responded st (Inr data) \<and> \<not> nullish data \<longrightarrow>
         fst (handler W req) =
           status_json fresh_res 200
             (JObj [(str ''success'', JBool True),
                    (str ''model'', JStr (str ''claude-3.5-sonnet'')),
                    (str ''response'',
                     js_or (opt_prop (opt_prop (opt_index0 (read_prop data (str ''choices'')))
                                        (str ''message''))
                              (str ''content''))
                       (JStr (str ''No response.'')))]))
   \<and> (res_status (fst (handler W req)) = 500 \<longleftrightarrow>
        (\<exists>m. W cocos_url (cocos_payload (prompt_or_Hello (p_prompt (rq_query req)))) = Rejected m)
        \<or> (\<exists>st m. W cocos_url (cocos_payload (prompt_or_Hello (p_prompt (rq_query req))))
                     = Responded st (Inl m))
        \<or> (\<exists>st data. W cocos_url (cocos_payload (prompt_or_Hello (p_prompt (rq_query req))))
                        = Responded st (Inr data) \<and> nullish data))"
  by (auto simp: handler_def prompt_or_Hello_def choices_content_def get_def status_json_def
        fresh_res_def Let_def split: outcome.splits sum.splits)

text \<open>
  C9, an instance: no prompt, and an upstream that answers 404 with the body \<open>{}\<close>; the
  handler responds HTTP 200 with "No response.".
\<close>

theorem handler_claude_js_witness:
  "fst (handler (\<lambda>url payload. Responded 404 (Inr (JObj []))) (GET_request no_params)) =
     status_json fresh_res 200
       (JObj [(str ''success'', JBool True),
              (str ''model'', JStr (str ''claude-3.5-sonnet'')),
              (str ''response'', JStr (str ''No response.''))])"
  using handler_claude_js [of "\<lambda>url payload. Responded 404 (Inr (JObj []))" "GET_request no_params"]
  by (simp add: opt_prop_def opt_index0_def js_or_def)

subsection \<open>Sequential fallback\<close>

text \<open>
  C1 at a concrete request to api/index.js: model chatgpt, the first upstream answers 200
  with the body \<open>{}\<close>, the second would answer with a usable \<open>response\<close>. \<open>tryChatGPT\<close>
  returns the undefined value picked from the first body, the second upstream is not
  fetched, and the router responds HTTP 500. The older router, at the corresponding
  request, goes on to its first fallback and responds HTTP 200.
\<close>

theorem tryChatGPT_unusable_2xx_returns:
  "exports_index
     (\<lambda>url payload. if url = WORKING_APIS_chatgpt ! 0 then Responded 200 (Inr (JObj []))
                     else Responded 200 (Inr (JObj [(str ''response'', JStr (str ''hello''))])))
     None (str ''2026-01-01T00:00:00.000Z'')
     (POST_request (no_params\<lparr>p_prompt := Some (str ''hi'')\<rparr>))
   = (status_json (cors_index fresh_res) 500
        (JObj [(str ''error'', JStr (str ''Chat generation failed'')),
               (str ''message'', JStr (str ''All APIs failed'')),
               (str ''model'', JStr (str ''chatgpt''))]),
      [(WORKING_APIS_chatgpt ! 0, kastg_payload (Some (str ''hi'')) [])])
   \<and> exports_older
       (\<lambda>url payload.
           if url = APIS_gpt4 then Responded 200 (Inr (JObj []))
           else Responded 200
                  (Inr (JObj [(str ''choices'',
                               JArr [JObj [(str ''message'',
                                            JObj [(str ''content'', JStr (str ''hello''))])]])])))
       (str ''2026-01-01T00:00:00.000Z'')
       (POST_request (no_params\<lparr>p_prompt := Some (str ''hi'')\<rparr>))
     = (status_json (cors_older fresh_res) 200
          (JObj [(str ''success'', JBool True),
                 (str ''model'', JStr (str ''fallback'')),
                 (str ''response'', JStr (str ''hello'')),
                 (str ''timestamp'', JStr (str ''2026-01-01T00:00:00.000Z''))]),
        [(APIS_gpt4, guru_payload (Some (str ''hi'')) []),
         (FALLBACK_chat ! 0, fallback_payload (Some (str ''hi'')) [])])"
proof
  show "exports_index
     (\<lambda>url payload. if url = WORKING_APIS_chatgpt ! 0 then Responded 200 (Inr (JObj []))
                     else Responded 200 (Inr (JObj [(str ''response'', JStr (str ''hello''))])))
     None (str ''2026-01-01T00:00:00.000Z'')
     (POST_request (no_params\<lparr>p_prompt := Some (str ''hi'')\<rparr>))
   = (status_json (cors_index fresh_res) 500
        (JObj [(str ''error'', JStr (str ''Chat generation failed'')),
               (str ''message'', JStr (str ''All APIs failed'')),
               (str ''model'', JStr (str ''chatgpt''))]),
      [(WORKING_APIS_chatgpt ! 0, kastg_payload (Some (str ''hi'')) [])])"
    by (simp add: exports_index_def request_params_def destructure_params_def POST_request_def no_params_def Let_def
          str_eq_iff str_empty handleChatRequest_def toLowerCase_names tryChatGPT_def try_post_def
          ok_def response_message_result_def js_or_def)
  show "exports_older
       (\<lambda>url payload.
           if url = APIS_gpt4 then Responded 200 (Inr (JObj []))
           else Responded 200
                  (Inr (JObj [(str ''choices'',
                               JArr [JObj [(str ''message'',
                                            JObj [(str ''content'', JStr (str ''hello''))])]])])))
       (str ''2026-01-01T00:00:00.000Z'')
       (POST_request (no_params\<lparr>p_prompt := Some (str ''hi'')\<rparr>))
     = (status_json (cors_older fresh_res) 200
          (JObj [(str ''success'', JBool True),
                 (str ''model'', JStr (str ''fallback'')),
                 (str ''response'', JStr (str ''hello'')),
                 (str ''timestamp'', JStr (str ''2026-01-01T00:00:00.000Z''))]),
        [(APIS_gpt4, guru_payload (Some (str ''hi'')) []),
         (FALLBACK_chat ! 0, fallback_payload (Some (str ''hi'')) [])])"
    by (simp add: exports_older_def request_params_def destructure_params_def POST_request_def no_params_def Let_def
          str_eq_iff str_empty handleChat_def toLowerCase_names callChatAPI_def apiUrl_def APIS_def
          APIS_gpt4_def ok_def response_answer_result_def js_or_def FALLBACK_chat_def
          callFallbackChat_def choices_content_def get_def opt_prop_def opt_index0_def)
qed

subsection \<open>Validation and the test action\<close>

lemma literal_neq:
  "str ''test'' \<noteq> str ''chat''" "str ''test'' \<noteq> str ''image''" "str ''image'' \<noteq> str ''chat''"
  "str ''image'' \<noteq> str ''test''" "str ''chat'' \<noteq> str ''test''" "str ''chat'' \<noteq> str ''image''"
  by (simp_all add: str_eq_iff)

text \<open>
  C4, as stated, fails on the older router: an image request without a prompt is answered
  HTTP 400 by \<open>handleImageGen\<close>, whose body has no \<open>usage\<close> field.
\<close>

theorem older_image_without_prompt_no_usage:
  "exports_older (\<lambda>url payload. Rejected (str ''down'')) (str ''2026-01-01T00:00:00.000Z'')
     (GET_request (no_params\<lparr>p_action := Some (str ''image'')\<rparr>))
   = (status_json (cors_older fresh_res) 400
        (JObj [(str ''error'', JStr (str ''Prompt required for image generation''))]), [])
   \<and> body_field
       (fst (exports_older (\<lambda>url payload. Rejected (str ''down'')) (str ''2026-01-01T00:00:00.000Z'')
               (GET_request (no_params\<lparr>p_action := Some (str ''image'')\<rparr>))))
       ''usage'' = JUndefined"
  by (simp add: exports_older_def GET_request_def no_params_def request_params_def destructure_params_def Let_def
        str_eq_iff handleImageGen_def body_field_def status_json_def)

text \<open>
  C4, amended, for requests of a method other than OPTIONS. When the request has a
  parameter object in which the prompt is absent: api/index.js responds HTTP 400 with a
  usage hint and makes no upstream call whenever the action is not "test"; the older router
  responds HTTP 400 and makes no upstream call when the action is "chat" (the default),
  with a usage hint, and when the action is "image", without one; for any other action the
  older router does not validate the prompt and hands the request to its chat handler.
  When the request has no parameter object (a request other than GET without body), both
  routers respond HTTP 500 "Internal server error" and make no upstream call.
\<close>

theorem missing_prompt_400:
  "rq_method req \<noteq> str ''OPTIONS'' \<longrightarrow>
     (\<forall>ps. destructure_params req = Inr ps \<and> p_prompt ps = None \<longrightarrow>
        (param_action req \<noteq> str ''test'' \<longrightarrow>
           exports_index W env now req =
             (status_json (cors_index fresh_res) 400
                (JObj [(str ''error'', JStr (str ''Missing prompt'')),
                       (str ''usage'', usage_index)]), []))
        \<and> (param_action req = str ''chat'' \<longrightarrow>
             exports_older W now req =
               (status_json (cors_older fresh_res) 400
                  (JObj [(str ''error'', JStr (str ''Prompt required'')),
                         (str ''usage'', usage_older)]), []))
        \<and> (param_action req = str ''image'' \<longrightarrow>
             exports_older W now req =
               (status_json (cors_older fresh_res) 400
                  (JObj [(str ''error'', JStr (str ''Prompt required for image generation''))]),
                []))
        \<and> (param_action req \<noteq> str ''chat'' \<and> param_action req \<noteq> str ''image'' \<longrightarrow>
             exports_older W now req =
               handleChat W now None
                 (case p_model ps of None \<Rightarrow> str ''gpt4'' | Some m \<Rightarrow> m)
                 (param_history req) (cors_older fresh_res)))
     \<and> (\<forall>e. destructure_params req = Inl e \<longrightarrow>
          exports_index W env now req =
            (status_json (cors_index fresh_res) 500
               (JObj [(str ''error'', JStr (str ''Internal server error'')),
                      (str ''message'', JStr (message e))]), [])
          \<and> exports_older W now req =
              (status_json (cors_older fresh_res) 500
                 (JObj [(str ''error'', JStr (str ''Internal server error'')),
                        (str ''message'', JStr (message e))]), []))"
  by (cases "destructure_params req")
     (simp_all add: exports_index_def exports_older_def param_action_def param_history_def
        request_params_def Let_def literal_neq handleImageGen_def)

text \<open>
  C4, instances: a GET request without parameters, to both routers, and a POST request
  without body, to both routers.
\<close>

theorem missing_prompt_400_witness:
  "exports_index (\<lambda>url payload. Rejected (str ''down'')) None (str ''2026-01-01T00:00:00.000Z'')
     (GET_request no_params) =
     (status_json (cors_index fresh_res) 400
        (JObj [(str ''error'', JStr (str ''Missing prompt'')), (str ''usage'', usage_index)]), [])
   \<and> exports_older (\<lambda>url payload. Rejected (str ''down'')) (str ''2026-01-01T00:00:00.000Z'')
       (GET_request no_params) =
       (status_json (cors_older fresh_res) 400
          (JObj [(str ''error'', JStr (str ''Prompt required'')), (str ''usage'', usage_older)]), [])
   \<and> exports_index (\<lambda>url payload. Rejected (str ''down'')) None (str ''2026-01-01T00:00:00.000Z'')
       \<lparr>rq_method = str ''POST'', rq_query = no_params, rq_body = NoBody (str ''undefined'')\<rparr> =
       (status_json (cors_index fresh_res) 500
          (JObj [(str ''error'', JStr (str ''Internal server error'')),
                 (str ''message'', JStr (str ''undefined''))]), [])
   \<and> exports_older (\<lambda>url payload. Rejected (str ''down'')) (str ''2026-01-01T00:00:00.000Z'')
       \<lparr>rq_method = str ''POST'', rq_query = no_params, rq_body = NoBody (str ''undefined'')\<rparr> =
       (status_json (cors_older fresh_res) 500
          (JObj [(str ''error'', JStr (str ''Internal server error'')),
                 (str ''message'', JStr (str ''undefined''))]), [])"
  using missing_prompt_400 [of "GET_request no_params" "\<lambda>url payload. Rejected (str ''down'')"
          None "str ''2026-01-01T00:00:00.000Z''"]
        missing_prompt_400
          [of "\<lparr>rq_method = str ''POST'', rq_query = no_params, rq_body = NoBody (str ''undefined'')\<rparr>"
              "\<lambda>url payload. Rejected (str ''down'')" None "str ''2026-01-01T00:00:00.000Z''"]
  by (simp add: GET_request_def no_params_def param_action_def request_params_def
        destructure_params_def str_eq_iff)

text \<open>
  C5, as stated, fails on the older router, which has no test action: a request with action
  "test" and a prompt is handled as a chat request, and the primary upstream is fetched.
\<close>

theorem older_test_action_fetches:
  "exports_older
     (\<lambda>url payload. Responded 200 (Inr (JObj [(str ''response'', JStr (str ''hello''))])))
     (str ''2026-01-01T00:00:00.000Z'')
     (GET_request (no_params\<lparr>p_prompt := Some (str ''hi''), p_action := Some (str ''test'')\<rparr>))
   = (status_json (cors_older fresh_res) 200
        (JObj [(str ''success'', JBool True),
               (str ''model'', JStr (str ''gpt4'')),
               (str ''response'', JStr (str ''hello'')),
               (str ''timestamp'', JStr (str ''2026-01-01T00:00:00.000Z''))]),
      [(APIS_gpt4, guru_payload (Some (str ''hi'')) [])])"
  by (simp add: exports_older_def GET_request_def no_params_def request_params_def destructure_params_def Let_def
        str_eq_iff str_empty handleChat_def toLowerCase_names callChatAPI_def apiUrl_def APIS_def
        APIS_gpt4_def ok_def response_answer_result_def js_or_def)

text \<open>
  C5, amended: for every request (of a method other than OPTIONS) with action "test", the
  router of api/index.js makes no upstream call and responds HTTP 200 with the static
  status payload: status "online", the list of models, the list of features and a
  timestamp. The older router has no test action: it hands such a request to its chat
  handler.
\<close>

theorem test_action_static_payload:
  "rq_method req \<noteq> str ''OPTIONS'' \<and> p_action (request_params req) = Some (str ''test'') \<longrightarrow>
     exports_index W env now req = (status_json (cors_index fresh_res) 200 (status_payload now), [])
     \<and> exports_older W now req =
         handleChat W now (param_prompt req)
           (case p_model (request_params req) of None \<Rightarrow> str ''gpt4'' | Some m \<Rightarrow> m)
           (param_history req) (cors_older fresh_res)"
  by (cases "destructure_params req")
     (simp_all add: exports_index_def exports_older_def param_prompt_def param_history_def
        request_params_def no_params_def Let_def literal_neq)

text \<open>C5, an instance: a GET request with action "test" and no prompt.\<close>

theorem test_action_static_payload_witness:
  "exports_index (\<lambda>url payload. Rejected (str ''down'')) None (str ''2026-01-01T00:00:00.000Z'')
     (GET_request (no_params\<lparr>p_action := Some (str ''test'')\<rparr>)) =
     (status_json (cors_index fresh_res) 200
        (JObj [(str ''status'', JStr (str ''online'')),
               (str ''models'', JArr [JStr (str ''chatgpt''), JStr (str ''claude''),
                                      JStr (str ''perplexity''), JStr (str ''gemini'')]),
               (str ''features'', JArr [JStr (str ''chat''), JStr (str ''image'')]),
               (str ''timestamp'', JStr (str ''2026-01-01T00:00:00.000Z''))]), [])"
  using test_action_static_payload
          [of "GET_request (no_params\<lparr>p_action := Some (str ''test'')\<rparr>)"
              "\<lambda>url payload. Rejected (str ''down'')" None "str ''2026-01-01T00:00:00.000Z''"]
  by (simp add: GET_request_def no_params_def request_params_def destructure_params_def str_eq_iff status_payload_def)

subsection \<open>The chat strategies as fallback over their candidates\<close>

lemma nth_chatgpt:
  "WORKING_APIS_chatgpt ! 0 = str ''https://api.kastg.xyz/api/ai/chatgptv2''"
  "WORKING_APIS_chatgpt ! 1 = str ''https://deepenglish.com/wp-json/ai-chatbot/v1/chat''"
  by (simp_all add: WORKING_APIS_chatgpt_def)

lemma tryChatGPT_run: "tryChatGPT W prompt history = run_returning W (chatgpt_targets prompt history)"
  by (simp add: tryChatGPT_def chatgpt_targets_def Let_def split: attempt.splits)

lemma tryGemini_run:
  "tryGemini W env prompt history imageUrl = run_returning W (gemini_targets env prompt history)"
  by (simp add: tryGemini_def gemini_targets_def tryChatGPT_run Let_def split: attempt.splits)

lemma strategy_run:
  "(if modelLower = str ''chatgpt'' \<or> modelLower = str ''gpt'' \<or> modelLower = str ''gpt4''
    then tryChatGPT W prompt history
    else if modelLower = str ''claude'' then tryClaude W prompt history
    else if modelLower = str ''perplexity'' \<or> modelLower = str ''search''
    then tryPerplexity W prompt
    else if modelLower = str ''gemini'' then tryGemini W env prompt history imageUrl
    else tryChatGPT W prompt history)
   = run_returning W (index_targets env modelLower prompt history)"
  by (auto simp: index_targets_def tryChatGPT_run tryGemini_run tryClaude_def tryPerplexity_def
        Let_def str_eq_iff split: attempt.splits)

lemma handleChatRequest_run:
  "handleChatRequest W env now prompt model history imageUrl res =
     (case run_returning W (index_targets env (toLowerCase model) prompt history) of
        (response, calls) \<Rightarrow>
          if truthy response then
            (status_json res 200
               (JObj [(str ''success'', JBool True),
                      (str ''model'', JStr (toLowerCase model)),
                      (str ''response'', response),
                      (str ''timestamp'', JStr now)]), calls)
          else
            (status_json res 500
               (JObj [(str ''error'', JStr (str ''Chat generation failed'')),
                      (str ''message'', JStr (str ''All APIs failed'')),
                      (str ''model'', JStr (toLowerCase model))]), calls))"
  unfolding handleChatRequest_def Let_def strategy_run by (simp split: prod.splits)

lemma exports_index_chat:
  "chat_request_index req \<Longrightarrow>
   exports_index W env now req =
     handleChatRequest W env now (param_prompt req)
       (case p_model (request_params req) of None \<Rightarrow> str ''chatgpt'' | Some m \<Rightarrow> m)
       (param_history req) (p_imageUrl (request_params req)) (cors_index fresh_res)"
  by (cases "destructure_params req")
     (simp_all add: chat_request_index_def exports_index_def param_prompt_def param_action_def
        param_history_def request_params_def no_params_def Let_def)

lemma exports_older_chat:
  "chat_request_older req \<Longrightarrow>
   exports_older W now req =
     handleChat W now (param_prompt req)
       (case p_model (request_params req) of None \<Rightarrow> str ''gpt4'' | Some m \<Rightarrow> m)
       (param_history req) (cors_older fresh_res)"
  by (cases "destructure_params req")
     (simp_all add: chat_request_older_def exports_older_def param_prompt_def param_action_def
        param_history_def request_params_def no_params_def Let_def)

lemma fails_unusable: "without_parsed_body W (fst t) \<Longrightarrow> usable_value W t = None"
  by (auto simp: without_parsed_body_def usable_value_def split: outcome.splits sum.splits)

lemma try_post_fails: "without_parsed_body W (fst t) \<Longrightarrow> try_post W (fst (fst t)) (snd (fst t)) (snd t) = Continued"
  by (auto simp: without_parsed_body_def try_post_def split: outcome.splits sum.splits)

lemma try_post_usable:
  "usable_value W t = Some v \<Longrightarrow> try_post W (fst (fst t)) (snd (fst t)) (snd t) = Returned v"
  by (auto simp: usable_value_def try_post_def split: outcome.splits sum.splits if_splits)

lemma try_post_unusable:
  "usable_value W t = None \<Longrightarrow> try_post W (fst (fst t)) (snd (fst t)) (snd t) = Returned v
     \<Longrightarrow> \<not> truthy v"
  by (auto simp: usable_value_def try_post_def split: outcome.splits sum.splits if_splits)

lemma run_returning_prefix:
  "M < length ts \<Longrightarrow> \<forall>i<M. without_parsed_body W (fst (ts ! i)) \<Longrightarrow> usable_value W (ts ! M) = Some v
     \<Longrightarrow> run_returning W ts = (v, map fst (take (Suc M) ts))"
proof (induction ts arbitrary: M)
  case Nil
  then show ?case by simp
next
  case (Cons t ts)
  show ?case
  proof (cases M)
    case 0
    with Cons.prems show ?thesis by (simp add: try_post_usable)
  next
    case (Suc k)
    with Cons.prems have "without_parsed_body W (fst t)" by auto
    then have first: "try_post W (fst (fst t)) (snd (fst t)) (snd t) = Continued"
      by (rule try_post_fails)
    from Suc Cons.prems have "k < length ts" "\<forall>i<k. without_parsed_body W (fst (ts ! i))"
      "usable_value W (ts ! k) = Some v" by auto
    then have "run_returning W ts = (v, map fst (take (Suc k) ts))" by (rule Cons.IH)
    with first Suc show ?thesis by simp
  qed
qed

lemma run_returning_unusable:
  "\<forall>t\<in>set ts. usable_value W t = None \<Longrightarrow> \<not> truthy (fst (run_returning W ts))"
proof (induction ts)
  case Nil
  then show ?case by simp
next
  case (Cons t ts)
  then show ?case
    by (auto split: attempt.splits prod.splits dest: try_post_unusable)
qed

lemma run_until_truthy_prefix:
  "M < length ts \<Longrightarrow> \<forall>i<M. usable_value W (ts ! i) = None \<Longrightarrow> usable_value W (ts ! M) = Some v
     \<Longrightarrow> run_until_truthy W ts = (Some v, map fst (take (Suc M) ts))"
proof (induction ts arbitrary: M)
  case Nil
  then show ?case by simp
next
  case (Cons t ts)
  show ?case
  proof (cases M)
    case 0
    with Cons.prems show ?thesis by simp
  next
    case (Suc k)
    with Cons.prems have first: "usable_value W t = None" by auto
    from Suc Cons.prems have "k < length ts" "\<forall>i<k. usable_value W (ts ! i) = None"
      "usable_value W (ts ! k) = Some v" by auto
    then have "run_until_truthy W ts = (Some v, map fst (take (Suc k) ts))" by (rule Cons.IH)
    with first Suc show ?thesis by simp
  qed
qed

lemma run_until_truthy_unusable:
  "\<forall>t\<in>set ts. usable_value W t = None \<Longrightarrow> run_until_truthy W ts = (None, map fst ts)"
  by (induction ts) auto

lemma callFallbackChat_usable:
  "callFallbackChat W prompt url history =
     (case usable_value W ((url, fallback_payload prompt history), choices_content) of
        Some v \<Rightarrow> v | None \<Rightarrow> JNull, [(url, fallback_payload prompt history)])"
  by (auto simp: callFallbackChat_def usable_value_def Let_def js_or_def
        split: outcome.splits sum.splits)

lemma fallback_loop_run:
  "fallback_loop W prompt history urls =
     run_until_truthy W (map (\<lambda>url. ((url, fallback_payload prompt history), choices_content)) urls)"
proof (induction urls)
  case Nil
  then show ?case by simp
next
  case (Cons url urls)
  then show ?case
    by (cases "usable_value W ((url, fallback_payload prompt history), choices_content)")
       (auto simp: callFallbackChat_usable usable_value_def
             split: prod.splits outcome.splits sum.splits if_splits)
qed

lemma truthy_usable: "usable_value W t = Some v \<Longrightarrow> truthy v"
  by (auto simp: usable_value_def split: outcome.splits sum.splits if_splits)

lemma response_answer_result_falsy:
  "response_answer_result data = Inr v \<Longrightarrow> \<not> truthy v \<Longrightarrow> v = JNull"
  by (auto simp: response_answer_result_def js_or_def split: if_splits)

lemma callChatAPI_usable:
  "apiUrl model = Some url \<Longrightarrow>
   callChatAPI W prompt model history =
     (case usable_value W ((url, guru_payload prompt history), response_answer_result) of
        Some v \<Rightarrow> v | None \<Rightarrow> JNull, [(url, guru_payload prompt history)])"
  by (auto simp: callChatAPI_def usable_value_def Let_def
        split: outcome.splits sum.splits dest: response_answer_result_falsy)

lemma handleChat_run:
  "handleChat W now prompt model history res =
     (case run_until_truthy W (older_targets (toLowerCase model) prompt history) of
        (Some v, calls) \<Rightarrow>
          (status_json res 200
             (JObj [(str ''success'', JBool True),
                    (str ''model'',
                     JStr (if length calls = 1 \<and> apiUrl (toLowerCase model) \<noteq> None
                           then toLowerCase model else str ''fallback'')),
                    (str ''response'', v),
                    (str ''timestamp'', JStr now)]), calls)
      | (None, calls) \<Rightarrow>
          (status_json res 500
             (JObj [(str ''error'', JStr (str ''Chat generation failed'')),
                    (str ''message'', JStr (str ''All APIs failed''))]), calls))"
proof (cases "apiUrl (toLowerCase model)")
  case None
  then show ?thesis
    by (auto simp: handleChat_def older_targets_def callChatAPI_def fallback_loop_run Let_def
          FALLBACK_chat_def split: prod.splits option.splits)
next
  case (Some url)
  show ?thesis
  proof (cases "usable_value W ((url, guru_payload prompt history), response_answer_result)")
    case None
    with Some show ?thesis
      by (auto simp: handleChat_def older_targets_def callChatAPI_usable fallback_loop_run Let_def
            FALLBACK_chat_def split: prod.splits option.splits)
  next
    case (Some v)
    with \<open>apiUrl (toLowerCase model) = Some url\<close> truthy_usable [OF Some] show ?thesis
      by (simp add: handleChat_def older_targets_def callChatAPI_usable Let_def)
  qed
qed

subsection \<open>Short circuit and exhaustion\<close>

text \<open>
  Where the short circuit holds. In api/index.js: when the first \<open>M\<close> attempts end without
  a parsed body and candidate \<open>M + 1\<close> has the usable value \<open>v\<close>, the router responds HTTP
  200 with \<open>v\<close> and has fetched the first \<open>M + 1\<close> candidates, in order. In the older
  router the same holds whenever the first \<open>M\<close> candidates have no usable value.
\<close>

lemma index_short_circuit:
  assumes "chat_request_index req"
    and "M < length (index_targets env (model_index req) (param_prompt req) (param_history req))"
    and "\<forall>i<M. without_parsed_body W
                 (fst (index_targets env (model_index req) (param_prompt req) (param_history req) ! i))"
    and "usable_value W
           (index_targets env (model_index req) (param_prompt req) (param_history req) ! M) = Some v"
  shows "exports_index W env now req =
      (status_json (cors_index fresh_res) 200
         (JObj [(str ''success'', JBool True),
                (str ''model'', JStr (model_index req)),
                (str ''response'', v),
                (str ''timestamp'', JStr now)]),
       map fst (take (Suc M)
                  (index_targets env (model_index req) (param_prompt req) (param_history req))))"
proof -
  from assms(2-4) have run: "run_returning W
                    (index_targets env (model_index req) (param_prompt req) (param_history req))
                  = (v, map fst (take (Suc M)
                      (index_targets env (model_index req) (param_prompt req) (param_history req))))"
    by (rule run_returning_prefix)
  from assms(4) have "truthy v" by (rule truthy_usable)
  with assms(1) run show ?thesis
    by (simp add: exports_index_chat handleChatRequest_run model_index_def)
qed

lemma older_short_circuit:
  assumes "chat_request_older req"
    and "M < length (older_targets (model_older req) (param_prompt req) (param_history req))"
    and "\<forall>i<M. usable_value W
                 (older_targets (model_older req) (param_prompt req) (param_history req) ! i) = None"
    and "usable_value W
           (older_targets (model_older req) (param_prompt req) (param_history req) ! M) = Some v"
  shows "res_status (fst (exports_older W now req)) = 200
      \<and> body_field (fst (exports_older W now req)) ''response'' = v
      \<and> snd (exports_older W now req) =
          map fst (take (Suc M)
                     (older_targets (model_older req) (param_prompt req) (param_history req)))"
proof -
  from assms(2-4) have run: "run_until_truthy W
                    (older_targets (model_older req) (param_prompt req) (param_history req))
                  = (Some v, map fst (take (Suc M)
                      (older_targets (model_older req) (param_prompt req) (param_history req))))"
    by (rule run_until_truthy_prefix)
  with assms(1) have older: "exports_older W now req =
      (status_json (cors_older fresh_res) 200
         (JObj [(str ''success'', JBool True),
                (str ''model'',
                 JStr (if length (map fst (take (Suc M)
                            (older_targets (model_older req) (param_prompt req) (param_history req)))) = 1
                          \<and> apiUrl (model_older req) \<noteq> None
                       then model_older req else str ''fallback'')),
                (str ''response'', v),
                (str ''timestamp'', JStr now)]),
       map fst (take (Suc M)
                  (older_targets (model_older req) (param_prompt req) (param_history req))))"
    by (auto simp: exports_older_chat handleChat_run model_older_def)
  show ?thesis
    unfolding older by (simp add: status_json_def body_field_def str_eq_iff)
qed

lemma nth_FALLBACK_chat:
  "FALLBACK_chat ! 0 = str ''https://widipe.com/openai''"
  "FALLBACK_chat ! 1 = str ''https://api.freeaiapi.xyz/v1/chat/completions''"
  by (simp_all add: FALLBACK_chat_def)

lemma nth_Suc_literals:
  "WORKING_APIS_chatgpt ! Suc 0 = str ''https://deepenglish.com/wp-json/ai-chatbot/v1/chat''"
  "FALLBACK_chat ! Suc 0 = str ''https://api.freeaiapi.xyz/v1/chat/completions''"
  by (simp_all add: WORKING_APIS_chatgpt_def FALLBACK_chat_def)

lemma apiUrl_gpt4: "apiUrl (str ''gpt4'') = Some APIS_gpt4"
  by (simp add: apiUrl_def APIS_def APIS_gpt4_def)

lemma gemini_url_k:
  "gemini_url (str ''k'') =
     str ''https://generativelanguage.googleapis.com/v1beta/models/gemini-pro:generateContent?key=k''"
  by (simp add: gemini_url_def WORKING_APIS_gemini_def str_append)

text \<open>
  C2 at a concrete request to api/index.js: model gemini with the API key "k", so that
  the candidates are the gemini service and the two chatgpt services. The gemini service
  answers 200 with the body \<open>{}\<close>, in which no usable field is found: the first attempt
  has failed. The second candidate would answer \<open>{response: "hello"}\<close>, a valid payload.
  \<open>tryGemini\<close> returns the undefined value picked from the first body: the router responds
  HTTP 500 after that single fetch, where the claim has HTTP 200 with "hello" after two.
\<close>

theorem tryGemini_unusable_2xx_returns:
  "length (index_targets (Some (str ''k'')) (str ''gemini'') (Some (str ''hi'')) []) = 3
   \<and> usable_value
       (\<lambda>url payload. if url = WORKING_APIS_chatgpt ! 0
                       then Responded 200 (Inr (JObj [(str ''response'', JStr (str ''hello''))]))
                       else Responded 200 (Inr (JObj [])))
       (index_targets (Some (str ''k'')) (str ''gemini'') (Some (str ''hi'')) [] ! 0) = None
   \<and> usable_value
       (\<lambda>url payload. if url = WORKING_APIS_chatgpt ! 0
                       then Responded 200 (Inr (JObj [(str ''response'', JStr (str ''hello''))]))
                       else Responded 200 (Inr (JObj [])))
       (index_targets (Some (str ''k'')) (str ''gemini'') (Some (str ''hi'')) [] ! 1)
     = Some (JStr (str ''hello''))
   \<and> exports_index
       (\<lambda>url payload. if url = WORKING_APIS_chatgpt ! 0
                       then Responded 200 (Inr (JObj [(str ''response'', JStr (str ''hello''))]))
                       else Responded 200 (Inr (JObj [])))
       (Some (str ''k'')) (str ''2026-01-01T00:00:00.000Z'')
       (POST_request (no_params\<lparr>p_prompt := Some (str ''hi''), p_model := Some (str ''gemini'')\<rparr>))
     = (status_json (cors_index fresh_res) 500
          (JObj [(str ''error'', JStr (str ''Chat generation failed'')),
                 (str ''message'', JStr (str ''All APIs failed'')),
                 (str ''model'', JStr (str ''gemini''))]),
        [(gemini_url (str ''k''), gemini_payload (Some (str ''hi'')))])"
proof -
  have key: "GEMINI_KEY (Some (str ''k'')) = str ''k''" "str ''k'' \<noteq> YOUR_GEMINI_KEY"
    by (simp_all add: GEMINI_KEY_def YOUR_GEMINI_KEY_def str_eq_iff str_empty)
  have ts: "index_targets (Some (str ''k'')) (str ''gemini'') (Some (str ''hi'')) []
            = ((gemini_url (str ''k''), gemini_payload (Some (str ''hi''))), candidates_text)
              # chatgpt_targets (Some (str ''hi'')) []"
    using key by (simp add: index_targets_def gemini_targets_def str_eq_iff str_empty)
  have u: "gemini_url (str ''k'') \<noteq> WORKING_APIS_chatgpt ! 0"
    by (simp add: gemini_url_k nth_chatgpt str_eq_iff)
  have pick: "candidates_text (JObj []) = Inr JUndefined"
    by (simp add: candidates_text_def get_def opt_prop_def opt_index0_def)
  show ?thesis
    using key u
    by (simp add: ts pick chatgpt_targets_def usable_value_def ok_def response_message_result_def
          js_or_def str_eq_iff str_empty exports_index_def destructure_params_def POST_request_def
          no_params_def Let_def handleChatRequest_def toLowerCase_names tryGemini_def try_post_def)
qed

text \<open>
  C3, as stated, fails on the older router: when every upstream is unreachable, its HTTP 500
  body holds \<open>error\<close> and \<open>message\<close>, and no \<open>model\<close> field.
\<close>

theorem older_500_without_model:
  "res_status (fst (exports_older (\<lambda>url payload. Rejected (str ''down''))
                      (str ''2026-01-01T00:00:00.000Z'')
                      (POST_request (no_params\<lparr>p_prompt := Some (str ''hi'')\<rparr>)))) = 500
   \<and> body_field (fst (exports_older (\<lambda>url payload. Rejected (str ''down''))
                        (str ''2026-01-01T00:00:00.000Z'')
                        (POST_request (no_params\<lparr>p_prompt := Some (str ''hi'')\<rparr>))))
       ''model'' = JUndefined"
  by (simp add: exports_older_def POST_request_def no_params_def request_params_def destructure_params_def Let_def
        str_eq_iff str_empty handleChat_def toLowerCase_names callChatAPI_def apiUrl_gpt4
        FALLBACK_chat_def callFallbackChat_def status_json_def body_field_def)

text \<open>
  C3, amended: for every chat request in which every candidate upstream fails or returns
  unusable data, the chat handler returns a response (it does not throw) and the router
  responds HTTP 500 with error "Chat generation failed" and message "All APIs failed"; the
  body of api/index.js also has a model field holding the requested model in lower case,
  the body of the older router has no model field, and the older router has fetched every
  candidate once, in order.
\<close>

theorem all_candidates_fail_500:
  "(chat_request_index req
    \<and> (\<forall>t\<in>set (index_targets env (model_index req) (param_prompt req) (param_history req)).
          usable_value W t = None)
    \<longrightarrow>
    fst (exports_index W env now req) =
      status_json (cors_index fresh_res) 500
        (JObj [(str ''error'', JStr (str ''Chat generation failed'')),
               (str ''message'', JStr (str ''All APIs failed'')),
               (str ''model'', JStr (model_index req))]))
   \<and> (chat_request_older req
      \<and> (\<forall>t\<in>set (older_targets (model_older req) (param_prompt req) (param_history req)).
            usable_value W t = None)
      \<longrightarrow>
      exports_older W now req =
        (status_json (cors_older fresh_res) 500
           (JObj [(str ''error'', JStr (str ''Chat generation failed'')),
                  (str ''message'', JStr (str ''All APIs failed''))]),
         map fst (older_targets (model_older req) (param_prompt req) (param_history req))))"
proof (intro conjI impI)
  assume h: "chat_request_index req
    \<and> (\<forall>t\<in>set (index_targets env (model_index req) (param_prompt req) (param_history req)).
          usable_value W t = None)"
  then have "\<not> truthy (fst (run_returning W
               (index_targets env (model_index req) (param_prompt req) (param_history req))))"
    by (intro run_returning_unusable) simp
  with h show "fst (exports_index W env now req) =
      status_json (cors_index fresh_res) 500
        (JObj [(str ''error'', JStr (str ''Chat generation failed'')),
               (str ''message'', JStr (str ''All APIs failed'')),
               (str ''model'', JStr (model_index req))])"
    by (auto simp: exports_index_chat handleChatRequest_run model_index_def split: prod.splits)
next
  assume h: "chat_request_older req
      \<and> (\<forall>t\<in>set (older_targets (model_older req) (param_prompt req) (param_history req)).
            usable_value W t = None)"
  then have "run_until_truthy W
               (older_targets (model_older req) (param_prompt req) (param_history req))
             = (None, map fst (older_targets (model_older req) (param_prompt req) (param_history req)))"
    by (intro run_until_truthy_unusable) simp
  with h show "exports_older W now req =
        (status_json (cors_older fresh_res) 500
           (JObj [(str ''error'', JStr (str ''Chat generation failed'')),
                  (str ''message'', JStr (str ''All APIs failed''))]),
         map fst (older_targets (model_older req) (param_prompt req) (param_history req)))"
    by (simp add: exports_older_chat handleChat_run model_older_def)
qed

text \<open>
  C3, an instance: every upstream is unreachable; chat request with model "Gemini" and no
  API key to api/index.js, with the default model to the older router.
\<close>

theorem all_candidates_fail_500_witness:
  "fst (exports_index (\<lambda>url payload. Rejected (str ''down'')) None
          (str ''2026-01-01T00:00:00.000Z'')
          (POST_request (no_params\<lparr>p_prompt := Some (str ''hi''),
                                      p_model := Some (str ''Gemini'')\<rparr>)))
   = status_json (cors_index fresh_res) 500
       (JObj [(str ''error'', JStr (str ''Chat generation failed'')),
              (str ''message'', JStr (str ''All APIs failed'')),
              (str ''model'', JStr (str ''gemini''))])
   \<and> exports_older (\<lambda>url payload. Rejected (str ''down'')) (str ''2026-01-01T00:00:00.000Z'')
       (POST_request (no_params\<lparr>p_prompt := Some (str ''hi'')\<rparr>))
     = (status_json (cors_older fresh_res) 500
          (JObj [(str ''error'', JStr (str ''Chat generation failed'')),
                 (str ''message'', JStr (str ''All APIs failed''))]),
        [(APIS_gpt4, guru_payload (Some (str ''hi'')) []),
         (FALLBACK_chat ! 0, fallback_payload (Some (str ''hi'')) []),
         (FALLBACK_chat ! 1, fallback_payload (Some (str ''hi'')) [])])"
proof
  let ?W = "\<lambda>url payload. Rejected (str ''down'')"
  let ?now = "str ''2026-01-01T00:00:00.000Z''"
  let ?req = "POST_request (no_params\<lparr>p_prompt := Some (str ''hi''),
                                         p_model := Some (str ''Gemini'')\<rparr>)"
  have m: "model_index ?req = str ''gemini''"
    by (simp add: model_index_def POST_request_def no_params_def request_params_def destructure_params_def str_eq_iff
          toLowerCase_names)
  have c: "chat_request_index ?req"
    by (simp add: chat_request_index_def param_prompt_def param_action_def POST_request_def
          no_params_def request_params_def destructure_params_def str_eq_iff str_empty)
  have u: "\<forall>t\<in>set (index_targets None (model_index ?req) (param_prompt ?req) (param_history ?req)).
             usable_value ?W t = None"
    by (simp add: usable_value_def)
  from all_candidates_fail_500 [of ?req None ?W ?now] c u
  show "fst (exports_index ?W None ?now ?req)
        = status_json (cors_index fresh_res) 500
            (JObj [(str ''error'', JStr (str ''Chat generation failed'')),
                   (str ''message'', JStr (str ''All APIs failed'')),
                   (str ''model'', JStr (str ''gemini''))])"
    by (simp add: m)
  let ?req' = "POST_request (no_params\<lparr>p_prompt := Some (str ''hi'')\<rparr>)"
  have m': "model_older ?req' = str ''gpt4''"
    by (simp add: model_older_def POST_request_def no_params_def request_params_def destructure_params_def str_eq_iff
          toLowerCase_names)
  have p': "param_prompt ?req' = Some (str ''hi'')" "param_history ?req' = []"
    by (simp_all add: param_prompt_def param_history_def POST_request_def no_params_def
          request_params_def destructure_params_def str_eq_iff)
  have c': "chat_request_older ?req'"
    by (simp add: chat_request_older_def param_prompt_def param_action_def POST_request_def
          no_params_def request_params_def destructure_params_def str_eq_iff str_empty)
  have u': "\<forall>t\<in>set (older_targets (model_older ?req') (param_prompt ?req') (param_history ?req')).
              usable_value ?W t = None"
    by (simp add: usable_value_def)
  from all_candidates_fail_500 [of ?req' None ?W ?now] c' u'
  show "exports_older ?W ?now ?req'
        = (status_json (cors_older fresh_res) 500
             (JObj [(str ''error'', JStr (str ''Chat generation failed'')),
                    (str ''message'', JStr (str ''All APIs failed''))]),
           [(APIS_gpt4, guru_payload (Some (str ''hi'')) []),
            (FALLBACK_chat ! 0, fallback_payload (Some (str ''hi'')) []),
            (FALLBACK_chat ! 1, fallback_payload (Some (str ''hi'')) [])])"
    by (simp add: m' p' older_targets_def apiUrl_gpt4 FALLBACK_chat_def)
qed

subsection \<open>The gemini strategy without an API key\<close>

lemma not_gemini_upstream:
  "\<not> gemini_upstream (WORKING_APIS_chatgpt ! 0)" "\<not> gemini_upstream (WORKING_APIS_chatgpt ! 1)"
  by (simp_all add: gemini_upstream_def WORKING_APIS_gemini_def WORKING_APIS_chatgpt_def str_def)

lemma tryChatGPT_calls:
  "c \<in> set (snd (tryChatGPT W prompt history)) \<Longrightarrow>
     fst c = WORKING_APIS_chatgpt ! 0 \<or> fst c = WORKING_APIS_chatgpt ! 1"
  by (auto simp: tryChatGPT_def Let_def split: attempt.splits)

lemma GEMINI_KEY_placeholder:
  "env = None \<or> env = Some YOUR_GEMINI_KEY \<Longrightarrow> GEMINI_KEY env = YOUR_GEMINI_KEY"
  by (auto simp: GEMINI_KEY_def)

text \<open>
  C7: for every chat request whose model is "gemini" (in any letter case), if
  \<open>GEMINI_API_KEY\<close> is absent or equals the placeholder \<open>YOUR_GEMINI_KEY\<close>, then
  \<open>tryGemini\<close> is \<open>tryChatGPT\<close>: the response of the router is built from the result of the
  default chat strategy, its fetches are those of that strategy, and none of them goes to
  the gemini endpoint.
\<close>

theorem gemini_without_key:
  "chat_request_index req \<and> model_index req = str ''gemini''
   \<and> (env = None \<or> env = Some YOUR_GEMINI_KEY)
   \<longrightarrow>
   tryGemini W env (param_prompt req) (param_history req) (p_imageUrl (request_params req))
     = tryChatGPT W (param_prompt req) (param_history req)
   \<and> exports_index W env now req =
       (case tryChatGPT W (param_prompt req) (param_history req) of
          (response, calls) \<Rightarrow>
            if truthy response then
              (status_json (cors_index fresh_res) 200
                 (JObj [(str ''success'', JBool True),
                        (str ''model'', JStr (str ''gemini'')),
                        (str ''response'', response),
                        (str ''timestamp'', JStr now)]), calls)
            else
              (status_json (cors_index fresh_res) 500
                 (JObj [(str ''error'', JStr (str ''Chat generation failed'')),
                        (str ''message'', JStr (str ''All APIs failed'')),
                        (str ''model'', JStr (str ''gemini''))]), calls))
   \<and> (\<forall>c\<in>set (snd (exports_index W env now req)). \<not> gemini_upstream (fst c))"
proof (intro impI)
  assume h: "chat_request_index req \<and> model_index req = str ''gemini''
             \<and> (env = None \<or> env = Some YOUR_GEMINI_KEY)"
  then have key: "GEMINI_KEY env = YOUR_GEMINI_KEY"
    by (intro GEMINI_KEY_placeholder) simp
  then have g: "tryGemini W env (param_prompt req) (param_history req)
                  (p_imageUrl (request_params req))
                = tryChatGPT W (param_prompt req) (param_history req)"
    by (simp add: tryGemini_def)
  from key have ts: "index_targets env (str ''gemini'') (param_prompt req) (param_history req)
                     = chatgpt_targets (param_prompt req) (param_history req)"
    by (simp add: index_targets_def gemini_targets_def str_eq_iff)
  from h have e: "exports_index W env now req =
       (case tryChatGPT W (param_prompt req) (param_history req) of
          (response, calls) \<Rightarrow>
            if truthy response then
              (status_json (cors_index fresh_res) 200
                 (JObj [(str ''success'', JBool True),
                        (str ''model'', JStr (str ''gemini'')),
                        (str ''response'', response),
                        (str ''timestamp'', JStr now)]), calls)
            else
              (status_json (cors_index fresh_res) 500
                 (JObj [(str ''error'', JStr (str ''Chat generation failed'')),
                        (str ''message'', JStr (str ''All APIs failed'')),
                        (str ''model'', JStr (str ''gemini''))]), calls))"
    using ts
    by (auto simp: exports_index_chat handleChatRequest_run model_index_def tryChatGPT_run
          split: prod.splits)
  have "snd (exports_index W env now req) = snd (tryChatGPT W (param_prompt req) (param_history req))"
    unfolding e by (simp split: prod.splits)
  then have n: "\<forall>c\<in>set (snd (exports_index W env now req)). \<not> gemini_upstream (fst c)"
    using not_gemini_upstream by (auto dest: tryChatGPT_calls)
  from g e n show "tryGemini W env (param_prompt req) (param_history req)
                     (p_imageUrl (request_params req))
                   = tryChatGPT W (param_prompt req) (param_history req)
    \<and> exports_index W env now req =
       (case tryChatGPT W (param_prompt req) (param_history req) of
          (response, calls) \<Rightarrow>
            if truthy response then
              (status_json (cors_index fresh_res) 200
                 (JObj [(str ''success'', JBool True),
                        (str ''model'', JStr (str ''gemini'')),
                        (str ''response'', response),
                        (str ''timestamp'', JStr now)]), calls)
            else
              (status_json (cors_index fresh_res) 500
                 (JObj [(str ''error'', JStr (str ''Chat generation failed'')),
                        (str ''message'', JStr (str ''All APIs failed'')),
                        (str ''model'', JStr (str ''gemini''))]), calls))
    \<and> (\<forall>c\<in>set (snd (exports_index W env now req)). \<not> gemini_upstream (fst c))"
    by blast
qed

text \<open>
  C7, an instance: model "Gemini", no API key, and a first chatgpt upstream that answers
  \<open>{response: "hello"}\<close>: the only fetch goes to that upstream.
\<close>

theorem gemini_without_key_witness:
  "exports_index
     (\<lambda>url payload. Responded 200 (Inr (JObj [(str ''response'', JStr (str ''hello''))])))
     None (str ''2026-01-01T00:00:00.000Z'')
     (POST_request (no_params\<lparr>p_prompt := Some (str ''hi''), p_model := Some (str ''Gemini'')\<rparr>))
   = (status_json (cors_index fresh_res) 200
        (JObj [(str ''success'', JBool True),
               (str ''model'', JStr (str ''gemini'')),
               (str ''response'', JStr (str ''hello'')),
               (str ''timestamp'', JStr (str ''2026-01-01T00:00:00.000Z''))]),
      [(WORKING_APIS_chatgpt ! 0, kastg_payload (Some (str ''hi'')) [])])"
proof -
  let ?W = "\<lambda>url payload. Responded 200 (Inr (JObj [(str ''response'', JStr (str ''hello''))]))"
  let ?req = "POST_request (no_params\<lparr>p_prompt := Some (str ''hi''),
                                         p_model := Some (str ''Gemini'')\<rparr>)"
  have m: "model_index ?req = str ''gemini''"
    by (simp add: model_index_def POST_request_def no_params_def request_params_def destructure_params_def str_eq_iff
          toLowerCase_names)
  have p: "param_prompt ?req = Some (str ''hi'')" "param_history ?req = []"
    by (simp_all add: param_prompt_def param_history_def POST_request_def no_params_def
          request_params_def destructure_params_def str_eq_iff)
  have c: "chat_request_index ?req"
    by (simp add: chat_request_index_def param_prompt_def param_action_def POST_request_def
          no_params_def request_params_def destructure_params_def str_eq_iff str_empty)
  have t: "tryChatGPT ?W (Some (str ''hi'')) []
           = (JStr (str ''hello''), [(WORKING_APIS_chatgpt ! 0, kastg_payload (Some (str ''hi'')) [])])"
    by (simp add: tryChatGPT_def try_post_def ok_def response_message_result_def js_or_def
          str_eq_iff str_empty)
  from gemini_without_key [of ?req None ?W "str ''2026-01-01T00:00:00.000Z''"] c m
  show ?thesis
    by (simp add: p t str_empty)
qed

subsection \<open>Image generation\<close>

lemma unreserved_not_surrogate:
  "unreserved c \<Longrightarrow> \<not> is_low_surrogate c \<and> \<not> is_high_surrogate c"
  unfolding unreserved_def is_low_surrogate_def is_high_surrogate_def str_def
  by (auto simp: word_le_nat_alt)

lemma high_not_low: "is_high_surrogate c \<Longrightarrow> \<not> is_low_surrogate c"
  unfolding is_low_surrogate_def is_high_surrogate_def
  by (auto simp: word_le_nat_alt)

lemma encodeURIComponent_error: "encodeURIComponent s = Inl e \<Longrightarrow> e = URI_malformed"
  by (induction s arbitrary: e rule: encodeURIComponent.induct)
     (auto split: if_splits sum.splits list.splits)

lemma encodeURIComponent_well_formed:
  "well_formed s \<longleftrightarrow> (\<exists>e. encodeURIComponent s = Inr e)"
proof (induction s rule: well_formed.induct)
  case 1
  then show ?case by simp
next
  case (2 c)
  then show ?case
    by (auto dest: unreserved_not_surrogate)
next
  case (3 c d ds)
  show ?case
  proof (cases "is_high_surrogate c")
    case True
    with 3 show ?thesis
      by (auto dest: unreserved_not_surrogate high_not_low split: sum.splits)
  next
    case False
    with 3 have ih: "well_formed (d # ds) \<longleftrightarrow> (\<exists>e. encodeURIComponent (d # ds) = Inr e)"
      by simp
    show ?thesis
    proof (cases "encodeURIComponent (d # ds)")
      case (Inl a)
      with False ih show ?thesis
        by (simp del: encodeURIComponent.simps
              add: encodeURIComponent.simps(2) [of c "d # ds"])
    next
      case (Inr b)
      with False ih show ?thesis
        by (auto simp del: encodeURIComponent.simps
              simp add: encodeURIComponent.simps(2) [of c "d # ds"]
              dest: unreserved_not_surrogate)
    qed
  qed
qed

lemma not_well_formed_nonempty: "\<not> well_formed s \<Longrightarrow> s \<noteq> []"
  by auto

lemma encodeURIComponent_malformed:
  "\<not> well_formed s \<Longrightarrow> encodeURIComponent s = Inl URI_malformed"
  using encodeURIComponent_well_formed [of s] encodeURIComponent_error [of s]
  by (cases "encodeURIComponent s") auto

lemma nth_image:
  "WORKING_APIS_image ! 0 = str ''https://image.pollinations.ai/prompt/''"
  "WORKING_APIS_image ! 1 = str ''https://api.kastg.xyz/api/ai/stablediffusion''"
  "WORKING_APIS_image ! Suc 0 = str ''https://api.kastg.xyz/api/ai/stablediffusion''"
  by (simp_all add: WORKING_APIS_image_def)

lemma encode_a_red_fox: "encodeURIComponent (str ''a red fox'') = Inr (str ''a%20red%20fox'')"
  by (simp add: str_def unreserved_def is_low_surrogate_def is_high_surrogate_def utf8_def
        percent_def hex_digit_def)

text \<open>
  C8, as stated, fails for a prompt with an unpaired surrogate (here the single code unit
  U+DC00, sent to the older router): the prompt is not empty, \<open>encodeURIComponent\<close> throws,
  the fallback image service is fetched, and with that service unreachable the response is
  HTTP 500.
\<close>

theorem older_image_unpaired_surrogate:
  "exports_older (\<lambda>url payload. Rejected (str ''down'')) (str ''2026-01-01T00:00:00.000Z'')
     (POST_request (no_params\<lparr>p_prompt := Some [0xDC00], p_action := Some (str ''image'')\<rparr>))
   = (status_json (cors_older fresh_res) 500
        (JObj [(str ''error'', JStr (str ''Image generation failed'')),
               (str ''message'', JStr (str ''down''))]),
      [(str ''https://api.freeaiapi.xyz/v1/images/generations'',
        JObj [(str ''prompt'', JStr [0xDC00]), (str ''n'', JNum 1),
              (str ''size'', JStr (str ''1024x1024''))])])"
  by (simp add: exports_older_def POST_request_def no_params_def request_params_def destructure_params_def Let_def
        str_eq_iff handleImageGen_def unreserved_def is_low_surrogate_def str_def)

text \<open>
  C8, amended: for every image request (of a method other than OPTIONS) with a non-empty
  prompt that has a percent-encoding \<open>e\<close> (a prompt without unpaired surrogates), the router
  responds HTTP 200 with the imageUrl made of the pollinations prefix, \<open>e\<close> and the
  parameters \<open>width=1024&height=1024\<close>, and makes no upstream call. This holds for
  api/index.js and for the older router.
\<close>

theorem image_url_primary_path:
  "rq_method req \<noteq> str ''OPTIONS'' \<and> p_action (request_params req) = Some (str ''image'')
   \<and> param_prompt req = Some p \<and> p \<noteq> [] \<and> encodeURIComponent p = Inr e
   \<longrightarrow>
   exports_index W env now req =
     (status_json (cors_index fresh_res) 200
        (JObj [(str ''success'', JBool True),
               (str ''model'', JStr (str ''pollinations'')),
               (str ''imageUrl'',
                JStr (str ''https://image.pollinations.ai/prompt/'' @ e
                      @ str ''?width=1024&height=1024&nologo=true&enhance=true'')),
               (str ''directUrl'',
                JStr (str ''https://image.pollinations.ai/prompt/'' @ e
                      @ str ''?width=1024&height=1024&nologo=true&enhance=true'')),
               (str ''prompt'', JStr p),
               (str ''timestamp'', JStr now)]), [])
   \<and> exports_older W now req =
       (status_json (cors_older fresh_res) 200
          (JObj [(str ''success'', JBool True),
                 (str ''model'', JStr (str ''pollinations-ai'')),
                 (str ''imageUrl'',
                  JStr (str ''https://image.pollinations.ai/prompt/'' @ e
                        @ str ''?width=1024&height=1024&nologo=true'')),
                 (str ''prompt'', JStr p),
                 (str ''timestamp'', JStr now)]), [])"
  by (cases "destructure_params req")
     (simp_all add: exports_index_def exports_older_def param_prompt_def request_params_def
        no_params_def Let_def literal_neq handleImageGeneration_def handleImageGen_def nth_image)

text \<open>C8, an instance: the prompt "a red fox", to both routers.\<close>

theorem image_url_primary_path_witness:
  "exports_index (\<lambda>url payload. Rejected (str ''down'')) None (str ''2026-01-01T00:00:00.000Z'')
     (POST_request (no_params\<lparr>p_prompt := Some (str ''a red fox''),
                                 p_action := Some (str ''image'')\<rparr>))
   = (status_json (cors_index fresh_res) 200
        (JObj [(str ''success'', JBool True),
               (str ''model'', JStr (str ''pollinations'')),
               (str ''imageUrl'',
                JStr (str ''https://image.pollinations.ai/prompt/a%20red%20fox?width=1024&height=1024&nologo=true&enhance=true'')),
               (str ''directUrl'',
                JStr (str ''https://image.pollinations.ai/prompt/a%20red%20fox?width=1024&height=1024&nologo=true&enhance=true'')),
               (str ''prompt'', JStr (str ''a red fox'')),
               (str ''timestamp'', JStr (str ''2026-01-01T00:00:00.000Z''))]), [])
   \<and> exports_older (\<lambda>url payload. Rejected (str ''down'')) (str ''2026-01-01T00:00:00.000Z'')
       (POST_request (no_params\<lparr>p_prompt := Some (str ''a red fox''),
                                   p_action := Some (str ''image'')\<rparr>))
     = (status_json (cors_older fresh_res) 200
          (JObj [(str ''success'', JBool True),
                 (str ''model'', JStr (str ''pollinations-ai'')),
                 (str ''imageUrl'',
                  JStr (str ''https://image.pollinations.ai/prompt/a%20red%20fox?width=1024&height=1024&nologo=true'')),
                 (str ''prompt'', JStr (str ''a red fox'')),
                 (str ''timestamp'', JStr (str ''2026-01-01T00:00:00.000Z''))]), [])"
  using image_url_primary_path
          [of "POST_request (no_params\<lparr>p_prompt := Some (str ''a red fox''),
                                          p_action := Some (str ''image'')\<rparr>)"
              "str ''a red fox''" "str ''a%20red%20fox''"
              "\<lambda>url payload. Rejected (str ''down'')" None "str ''2026-01-01T00:00:00.000Z''"]
        encode_a_red_fox
  by (simp add: POST_request_def no_params_def request_params_def destructure_params_def param_prompt_def str_eq_iff
        str_empty str_append)

text \<open>
  C10, as stated, fails: for the string prompt made of the single code unit U+D800 (an
  unpaired surrogate, as the JSON body \<open>{"action":"image","prompt":"\ud800"}\<close> gives it),
  \<open>encodeURIComponent\<close> throws a URIError, the catch branch runs, the stable-diffusion
  service is fetched, and with that service unreachable the response is HTTP 500.
\<close>

theorem handleImageGeneration_unpaired_surrogate:
  "handleImageGeneration (\<lambda>url payload. Rejected (str ''down'')) (str ''2026-01-01T00:00:00.000Z'')
     (Some [0xD800]) (cors_index fresh_res)
   = (status_json (cors_index fresh_res) 500
        (JObj [(str ''error'', JStr (str ''Image generation failed'')),
               (str ''message'', JStr (str ''URI malformed''))]),
      [(WORKING_APIS_image ! 1, JObj [(str ''prompt'', JStr [0xD800])])])"
  by (simp add: handleImageGeneration_def Let_def unreserved_def is_low_surrogate_def
        is_high_surrogate_def str_def URI_malformed_def)

text \<open>
  C10, amended: in \<open>handleImageGeneration\<close>, for every non-empty string prompt without
  unpaired surrogates the primary path does not throw: the handler returns HTTP 200 with
  the pollinations URL and makes no fetch. For a prompt with an unpaired surrogate
  \<open>encodeURIComponent\<close> throws "URI malformed" and the catch branch is reached: the
  stable-diffusion service is fetched once, and the response is HTTP 200 when that service
  answers 2xx with a parsed body other than null, and HTTP 500 otherwise.
\<close>

theorem handleImageGeneration_paths:
  "(p \<noteq> [] \<and> well_formed p \<longrightarrow>
      (\<exists>e. encodeURIComponent p = Inr e
           \<and> handleImageGeneration W now (Some p) res =
               (status_json res 200
                  (JObj [(str ''success'', JBool True),
                         (str ''model'', JStr (str ''pollinations'')),
                         (str ''imageUrl'',
                          JStr (WORKING_APIS_image ! 0 @ e
                                @ str ''?width=1024&height=1024&nologo=true&enhance=true'')),
                         (str ''directUrl'',
                          JStr (WORKING_APIS_image ! 0 @ e
                                @ str ''?width=1024&height=1024&nologo=true&enhance=true'')),
                         (str ''prompt'', JStr p),
                         (str ''timestamp'', JStr now)]), [])))
   \<and> (\<not> well_formed p \<longrightarrow>
        encodeURIComponent p = Inl URI_malformed
        \<and> snd (handleImageGeneration W now (Some p) res) =
            [(WORKING_APIS_image ! 1, JObj [(str ''prompt'', JStr p)])]
        \<and> (res_status (fst (handleImageGeneration W now (Some p) res)) = 200 \<longleftrightarrow>
             (\<exists>st data. W (WORKING_APIS_image ! 1) (JObj [(str ''prompt'', JStr p)])
                           = Responded st (Inr data) \<and> ok st \<and> \<not> nullish data))
        \<and> (res_status (fst (handleImageGeneration W now (Some p) res)) = 500 \<longleftrightarrow>
             \<not> (\<exists>st data. W (WORKING_APIS_image ! 1) (JObj [(str ''prompt'', JStr p)])
                             = Responded st (Inr data) \<and> ok st \<and> \<not> nullish data)))"
proof (intro conjI impI)
  assume "p \<noteq> [] \<and> well_formed p"
  then obtain e where "p \<noteq> []" "encodeURIComponent p = Inr e"
    using encodeURIComponent_well_formed [of p] by auto
  then show "\<exists>e. encodeURIComponent p = Inr e
           \<and> handleImageGeneration W now (Some p) res =
               (status_json res 200
                  (JObj [(str ''success'', JBool True),
                         (str ''model'', JStr (str ''pollinations'')),
                         (str ''imageUrl'',
                          JStr (WORKING_APIS_image ! 0 @ e
                                @ str ''?width=1024&height=1024&nologo=true&enhance=true'')),
                         (str ''directUrl'',
                          JStr (WORKING_APIS_image ! 0 @ e
                                @ str ''?width=1024&height=1024&nologo=true&enhance=true'')),
                         (str ''prompt'', JStr p),
                         (str ''timestamp'', JStr now)]), [])"
    by (simp add: handleImageGeneration_def Let_def)
next
  assume n: "\<not> well_formed p"
  then show m: "encodeURIComponent p = Inl URI_malformed"
    by (rule encodeURIComponent_malformed)
  from n have ne: "p \<noteq> []" by (rule not_well_formed_nonempty)
  from m ne show "snd (handleImageGeneration W now (Some p) res) =
            [(WORKING_APIS_image ! 1, JObj [(str ''prompt'', JStr p)])]"
    by (simp add: handleImageGeneration_def Let_def split: outcome.splits sum.splits)
  from m ne show "res_status (fst (handleImageGeneration W now (Some p) res)) = 200 \<longleftrightarrow>
             (\<exists>st data. W (WORKING_APIS_image ! 1) (JObj [(str ''prompt'', JStr p)])
                           = Responded st (Inr data) \<and> ok st \<and> \<not> nullish data)"
    by (auto simp: handleImageGeneration_def Let_def status_json_def
          split: outcome.splits sum.splits)
  from m ne show "res_status (fst (handleImageGeneration W now (Some p) res)) = 500 \<longleftrightarrow>
             \<not> (\<exists>st data. W (WORKING_APIS_image ! 1) (JObj [(str ''prompt'', JStr p)])
                             = Responded st (Inr data) \<and> ok st \<and> \<not> nullish data)"
    by (auto simp: handleImageGeneration_def Let_def status_json_def
          split: outcome.splits sum.splits)
qed

text \<open>
  C10, two instances: the prompt "a red fox" takes the primary path; the prompt made of
  the single code unit U+DFFF reaches the catch branch, where a stable-diffusion service
  that answers \<open>{url: "u"}\<close> gives HTTP 200.
\<close>

theorem handleImageGeneration_paths_witness:
  "handleImageGeneration (\<lambda>url payload. Rejected (str ''down'')) (str ''2026-01-01T00:00:00.000Z'')
     (Some (str ''a red fox'')) (cors_index fresh_res)
   = (status_json (cors_index fresh_res) 200
        (JObj [(str ''success'', JBool True),
               (str ''model'', JStr (str ''pollinations'')),
               (str ''imageUrl'',
                JStr (str ''https://image.pollinations.ai/prompt/a%20red%20fox?width=1024&height=1024&nologo=true&enhance=true'')),
               (str ''directUrl'',
                JStr (str ''https://image.pollinations.ai/prompt/a%20red%20fox?width=1024&height=1024&nologo=true&enhance=true'')),
               (str ''prompt'', JStr (str ''a red fox'')),
               (str ''timestamp'', JStr (str ''2026-01-01T00:00:00.000Z''))]), [])
   \<and> res_status
       (fst (handleImageGeneration
               (\<lambda>url payload. Responded 200 (Inr (JObj [(str ''url'', JStr (str ''u''))])))
               (str ''2026-01-01T00:00:00.000Z'') (Some [0xDFFF]) (cors_index fresh_res))) = 200"
proof
  have wf: "str ''a red fox'' \<noteq> [] \<and> well_formed (str ''a red fox'')"
    using encodeURIComponent_well_formed [of "str ''a red fox''"] encode_a_red_fox
    by (simp add: str_empty)
  from handleImageGeneration_paths
         [of "str ''a red fox''" "\<lambda>url payload. Rejected (str ''down'')"
             "str ''2026-01-01T00:00:00.000Z''" "cors_index fresh_res"] wf encode_a_red_fox
  show "handleImageGeneration (\<lambda>url payload. Rejected (str ''down''))
          (str ''2026-01-01T00:00:00.000Z'') (Some (str ''a red fox'')) (cors_index fresh_res)
        = (status_json (cors_index fresh_res) 200
             (JObj [(str ''success'', JBool True),
                    (str ''model'', JStr (str ''pollinations'')),
                    (str ''imageUrl'',
                     JStr (str ''https://image.pollinations.ai/prompt/a%20red%20fox?width=1024&height=1024&nologo=true&enhance=true'')),
                    (str ''directUrl'',
                     JStr (str ''https://image.pollinations.ai/prompt/a%20red%20fox?width=1024&height=1024&nologo=true&enhance=true'')),
                    (str ''prompt'', JStr (str ''a red fox'')),
                    (str ''timestamp'', JStr (str ''2026-01-01T00:00:00.000Z''))]), [])"
    by (simp add: nth_image str_append)
  have nwf: "\<not> well_formed [0xDFFF]"
    by (simp add: is_low_surrogate_def)
  from handleImageGeneration_paths
         [of "[0xDFFF]" "\<lambda>url payload. Responded 200 (Inr (JObj [(str ''url'', JStr (str ''u''))]))"
             "str ''2026-01-01T00:00:00.000Z''" "cors_index fresh_res"] nwf
  have "res_status
          (fst (handleImageGeneration
                  (\<lambda>url payload. Responded 200 (Inr (JObj [(str ''url'', JStr (str ''u''))])))
                  (str ''2026-01-01T00:00:00.000Z'') (Some [0xDFFF]) (cors_index fresh_res))) = 200
        \<longleftrightarrow> (\<exists>st data. Responded 200 (Inr (JObj [(str ''url'', JStr (str ''u''))]))
                           = Responded st (Inr data) \<and> ok st \<and> \<not> nullish data)"
    by blast
  then show "res_status
          (fst (handleImageGeneration
                  (\<lambda>url payload. Responded 200 (Inr (JObj [(str ''url'', JStr (str ''u''))])))
                  (str ''2026-01-01T00:00:00.000Z'') (Some [0xDFFF]) (cors_index fresh_res))) = 200"
    by (simp add: ok_def)
qed

end
